theory Spec2Isabelle
  imports Complex_Main "HOL-Library.Sublist"
begin

section \<open>Python values used by the credential routers\<close>

text \<open>
  A Python \<open>str\<close> that carries a diagnostic message is modelled as the list of its
  Unicode code points, so that slicing (\<open>s[:30]\<close>) is \<open>take\<close> and \<open>len\<close> is
  \<open>length\<close>.  Identifiers (e-mail addresses, tokens, JSON keys, file names) are
  modelled as \<open>string\<close>.
\<close>

type_synonym ustr = "nat list"

definition asc :: "string \<Rightarrow> ustr" where
  "asc s = map of_char s"

text \<open>The decimal rendering of a non-negative integer inside an f-string.\<close>

fun str_nat :: "nat \<Rightarrow> string" where
  "str_nat n = (if n < 10 then [''0123456789'' ! n]
                else str_nat (n div 10) @ [''0123456789'' ! (n mod 10)])"

declare str_nat.simps [simp del]

text \<open>Python's \<open>needle in haystack\<close> on strings.\<close>

fun contains :: "'a list \<Rightarrow> 'a list \<Rightarrow> bool" where
  "contains needle [] = (needle = [])"
| "contains needle (c # cs) = (prefix needle (c # cs) \<or> contains needle cs)"

text \<open>
  The outcome of a call that may raise: \<open>Raised e\<close> carries \<open>str(e)\<close>.
\<close>

datatype 'a outcome = Raised ustr | Returned 'a

section \<open>Binary64 arithmetic\<close>

text \<open>
  A Python \<open>float\<close> is an IEEE 754 binary64 number; a finite one is modelled by its
  value, a real number.  Every arithmetic operation returns the binary64 number
  nearest to the exact result, a tie going to the even significand
  (\<open>double_round\<close>).  \<open>binade x\<close> is the exponent of the power of two at or below a
  positive \<open>x\<close>; the spacing of the binary64 numbers around \<open>x\<close> is
  \<open>2 ^ (binade x - 52)\<close>, and \<open>2 ^ (- 1074)\<close> in the subnormal range.
\<close>

fun bit_length :: "nat \<Rightarrow> nat" where
  "bit_length n = (if n = 0 then 0 else Suc (bit_length (n div 2)))"

declare bit_length.simps [simp del]

definition binade :: "real \<Rightarrow> int" where
  "binade x = (if 1 \<le> x then int (bit_length (nat \<lfloor>x\<rfloor>)) - 1
               else - int (bit_length (nat (\<lceil>1 / x\<rceil> - 1))))"

definition pow2 :: "int \<Rightarrow> real" where
  "pow2 e = (if 0 \<le> e then 2 ^ nat e else 1 / 2 ^ nat (- e))"

definition round_half_even :: "real \<Rightarrow> int" where
  "round_half_even x =
     (let f = \<lfloor>x\<rfloor>; r = x - of_int f
      in if r < 1 / 2 then f else if 1 / 2 < r then f + 1 else if even f then f else f + 1)"

definition double_round :: "real \<Rightarrow> real" where
  "double_round x =
     (if x = 0 then 0
      else (let a = \<bar>x\<bar>;
                e = max (binade a - 52) (- 1074);
                y = of_int (round_half_even (a / pow2 e)) * pow2 e
            in if x < 0 then - y else y))"

text \<open>
  A Python number: an \<open>int\<close> or a \<open>float\<close> (finite, infinite or not a number).
  \<open>float_result\<close> is the \<open>float\<close> for an exact result: rounded, and infinite from
  \<open>2 ^ 1024\<close> on.
\<close>

datatype pynum = PyInt int | PyFloat real | PyInf | PyNegInf | PyNaN

definition float_result :: "real \<Rightarrow> pynum" where
  "float_result x =
     (let y = double_round x
      in if 2 ^ 1024 \<le> y then PyInf else if y \<le> - (2 ^ 1024) then PyNegInf else PyFloat y)"

text \<open>\<open>x * 100\<close>: exact on an \<open>int\<close>; on a \<open>float\<close> the \<open>100\<close> becomes \<open>100.0\<close>.\<close>

fun py_mul_100 :: "pynum \<Rightarrow> pynum" where
  "py_mul_100 (PyInt n) = PyInt (n * 100)"
| "py_mul_100 (PyFloat x) = float_result (x * 100)"
| "py_mul_100 PyInf = PyInf"
| "py_mul_100 PyNegInf = PyNegInf"
| "py_mul_100 PyNaN = PyNaN"

text \<open>
  \<open>round(x, 1)\<close>.  An \<open>int\<close> is returned as it is.  A finite \<open>float\<close> is rounded
  to the nearest multiple of one tenth of its exact value, a tie going to the even
  multiple, and the \<open>float\<close> nearest to that decimal is returned; a binary64 number of
  magnitude \<open>2 ^ 52\<close> or more is an integer and rounds to itself.  Infinities and
  not-a-number round to themselves.
\<close>

fun py_round_1 :: "pynum \<Rightarrow> pynum" where
  "py_round_1 (PyInt n) = PyInt n"
| "py_round_1 (PyFloat x) =
     (if 2 ^ 52 \<le> \<bar>x\<bar> then PyFloat x
      else PyFloat (double_round (of_int (round_half_even (x * 10)) / 10)))"
| "py_round_1 PyInf = PyInf"
| "py_round_1 PyNegInf = PyNegInf"
| "py_round_1 PyNaN = PyNaN"

section \<open>Health-probe classification\<close>

text \<open>
  The fixed message fragments, as code points:
  \<open>msg_auth_failed\<close> is the four-character prefix of \<open>f"... ({status})"\<close> at lines 455
  and 870, \<open>msg_api_returned\<close> is \<open>"API "\<close> followed by two characters and a blank
  (lines 457, 872), \<open>msg_request_exception\<close> is four characters, a colon and a blank
  (lines 459, 874), \<open>msg_no_project_id\<close> is one character followed by
  \<open>" project_id"\<close> (lines 461, 876).
\<close>

definition msg_auth_failed :: ustr where
  "msg_auth_failed = [0x8BA4, 0x8BC1, 0x5931, 0x8D25]"

definition msg_api_returned :: ustr where
  "msg_api_returned = asc ''API '' @ [0x8FD4, 0x56DE] @ asc '' ''"

definition msg_request_exception :: ustr where
  "msg_request_exception = [0x8BF7, 0x6C42, 0x5F02, 0x5E38] @ asc '': ''"

definition msg_no_project_id :: ustr where
  "msg_no_project_id = [0x65E0] @ asc '' project_id''"

text \<open>
  The probe block of \<open>verify_my_antigravity_credential\<close> (lines 450-459) and, word for
  word, of \<open>admin_verify_antigravity_credential\<close> (lines 865-874): from the outcome of
  \<open>client.post\<close> (a status code, or an exception) to \<open>(is_valid, error_msg)\<close>.
\<close>

definition classify_probe :: "nat outcome \<Rightarrow> bool \<times> ustr option" where
  "classify_probe r =
     (case r of
        Returned status \<Rightarrow>
          if status = 200 \<or> status = 429 then (True, None)
          else if status = 401 \<or> status = 403
            then (False, Some (msg_auth_failed @ asc '' ('' @ asc (str_nat status) @ asc '')''))
          else (False, Some (msg_api_returned @ asc (str_nat status)))
      | Raised e \<Rightarrow> (False, Some (msg_request_exception @ take 30 e)))"

text \<open>
  The probe of \<open>verify_single\<close> in the verify-all batch (lines 966-967 and the
  handler at 970-972): only the validity bit; an exception is caught by the enclosing
  handler, which reports the credential invalid.
\<close>

definition verify_single_probe :: "nat outcome \<Rightarrow> bool" where
  "verify_single_probe r =
     (case r of
        Returned status \<Rightarrow> status = 200 \<or> status = 429
      | Raised e \<Rightarrow> False)"

text \<open>
  The authentication test of the donation gate in
  \<open>update_my_antigravity_credential\<close> (line 305):
  \<open>cred.last_error and ('403' in cred.last_error or '401' in cred.last_error)\<close>.
\<close>

definition has_auth_error :: "ustr option \<Rightarrow> bool" where
  "has_auth_error last_error =
     (case last_error of
        None \<Rightarrow> False
      | Some e \<Rightarrow> e \<noteq> [] \<and> (contains (asc ''403'') e \<or> contains (asc ''401'') e))"

section \<open>The persisted data model\<close>

text \<open>
  The \<open>Credential\<close> and \<open>UsageLog\<close> tables.  The model classes are declared in
  \<open>app/models/user.py\<close>, outside the routers; the columns are those the routers read
  and write, typed by their use.  Secret columns hold the output of
  \<open>encrypt_credential\<close>.  A column that a constructor call does not pass is \<open>NULL\<close>
  (\<open>None\<close>).  \<open>id\<close> is the primary key; it is \<open>cred_id\<close> here.  \<open>settings\<close> holds
  the fields of \<open>app.config.settings\<close> that the routers read.
\<close>

record credential =
  cred_id :: nat
  user_id :: nat
  name :: string
  email :: "string option"
  api_key :: "string option"
  refresh_token :: "string option"
  client_id :: "string option"
  client_secret :: "string option"
  project_id :: "string option"
  credential_type :: string
  is_public :: bool
  is_active :: bool
  last_error :: "ustr option"
  api_type :: string
  model_tier :: string

record usage_log =
  log_id :: nat
  credential_id :: "nat option"

record database =
  credentials :: "credential list"
  usage_logs :: "usage_log list"

record settings =
  google_client_id :: string
  google_client_secret :: string
  force_donate :: bool
  quota_flash :: int
  quota_25pro :: int
  quota_30pro :: int

definition MODE :: string where
  "MODE = ''antigravity''"

text \<open>
  A rejected request: \<open>HTTPException(status_code=...)\<close>; an exception that escapes a
  handler is the framework's status 500.
\<close>

datatype http_error = HTTPException nat

text \<open>
  \<open>Result.scalar_one_or_none()\<close>: the single row, \<open>None\<close> for no row, and
  \<open>MultipleResultsFound\<close> for more than one.
\<close>

datatype db_error = MultipleResultsFound

fun scalar_one_or_none :: "'a list \<Rightarrow> db_error + 'a option" where
  "scalar_one_or_none [] = Inr None"
| "scalar_one_or_none [x] = Inr (Some x)"
| "scalar_one_or_none (x # y # zs) = Inl MultipleResultsFound"

text \<open>Python truthiness of an optional string: \<open>None\<close> and \<open>""\<close> are false.\<close>

fun truthy_str :: "string option \<Rightarrow> bool" where
  "truthy_str None = False"
| "truthy_str (Some s) = (s \<noteq> [])"

text \<open>\<open>x or ""\<close> for an optional string.\<close>

fun or_empty :: "string option \<Rightarrow> string" where
  "or_empty None = []"
| "or_empty (Some s) = s"

section \<open>Credential list (\<open>list_my_antigravity_credentials\<close>) and cooldown\<close>

text \<open>
  A naive UTC \<open>datetime\<close> is modelled here as the integer number of microseconds since
  \<open>datetime.min\<close> (0001-01-01T00:00:00); \<open>datetime.max\<close> is the last microsecond of
  day 3652059, so a \<open>datetime\<close> lies in \<open>{0..<datetime_end}\<close>.  A \<open>timedelta\<close> holds
  at most 999999999 days.  Leaving either range raises \<open>OverflowError\<close>.
\<close>

datatype arithmetic_error = OverflowError

definition timedelta_max_days :: int where
  "timedelta_max_days = 999999999"

definition datetime_end :: int where
  "datetime_end = 3652059 * 86400000000"

text \<open>
  \<open>td.total_seconds()\<close> of a \<open>timedelta\<close> of \<open>us\<close> microseconds: the \<open>float\<close> of
  the true division \<open>us / 10**6\<close>.  \<open>int(x)\<close> of a \<open>float\<close> truncates towards zero.
\<close>

definition total_seconds :: "int \<Rightarrow> real" where
  "total_seconds us = double_round (of_int us / 1000000)"

definition py_int :: "real \<Rightarrow> int" where
  "py_int x = (if 0 \<le> x then \<lfloor>x\<rfloor> else \<lceil>x\<rceil>)"

text \<open>
  The helper defined inside the handler (lines 250-257); \<open>now\<close> is the
  \<open>datetime.utcnow()\<close> of the request, \<open>cd_seconds\<close> an \<open>int\<close>.
\<close>

definition get_cd_remaining :: "int \<Rightarrow> int option \<Rightarrow> int \<Rightarrow> arithmetic_error + int" where
  "get_cd_remaining now last_used cd_seconds =
     (case last_used of
        None \<Rightarrow> Inr 0
      | Some lu \<Rightarrow>
          if cd_seconds \<le> 0 then Inr 0
          else if timedelta_max_days < cd_seconds div 86400 then Inl OverflowError
          else (let cd_end = lu + cd_seconds * 1000000
                in if cd_end < 0 \<or> datetime_end \<le> cd_end then Inl OverflowError
                   else (let remaining = total_seconds (cd_end - now)
                         in Inr (max 0 (py_int remaining)))))"

text \<open>
  The columns of \<open>Credential\<close> that only the list reads (\<open>created_at\<close> is
  \<open>cred_created_at\<close> here), and one entry of the returned list, a \<open>dict\<close> whose keys
  are the field names without \<open>row_\<close>.  \<open>isoformat\<close> is the standard library's
  rendering of a \<open>datetime\<close>.
\<close>

record listed_credential = credential +
  total_requests :: "int option"
  failed_requests :: "int option"
  last_used_at :: "int option"
  cred_created_at :: "int option"

record credential_row =
  row_id :: nat
  row_name :: string
  row_email :: "string option"
  row_project_id :: "string option"
  row_is_public :: bool
  row_is_active :: bool
  row_total_requests :: int
  row_failed_requests :: int
  row_last_error :: "ustr option"
  row_last_used_at :: "string option"
  row_created_at :: "string option"
  cd_flash :: int
  cd_pro :: int
  cd_30 :: int

text \<open>Lines 259-278.  The helper above is not called: the three cooldowns are \<open>0\<close>.\<close>

definition list_entry :: "(int \<Rightarrow> string) \<Rightarrow> listed_credential \<Rightarrow> credential_row" where
  "list_entry isoformat c =
     \<lparr>row_id = cred_id c, row_name = name c, row_email = email c,
      row_project_id = project_id c, row_is_public = is_public c,
      row_is_active = is_active c,
      row_total_requests = (case total_requests c of None \<Rightarrow> 0 | Some n \<Rightarrow> n),
      row_failed_requests = (case failed_requests c of None \<Rightarrow> 0 | Some n \<Rightarrow> n),
      row_last_error = last_error c,
      row_last_used_at = (case last_used_at c of None \<Rightarrow> None
                          | Some t \<Rightarrow> Some (isoformat t @ ''Z'')),
      row_created_at = (case cred_created_at c of None \<Rightarrow> None
                        | Some t \<Rightarrow> Some (isoformat t @ ''Z'')),
      cd_flash = 0, cd_pro = 0, cd_30 = 0\<rparr>"

text \<open>
  The handler.  \<open>table\<close> lists the stored credentials in the order of the query
  (\<open>created_at\<close> descending).
\<close>

definition list_my_antigravity_credentials ::
  "(int \<Rightarrow> string) \<Rightarrow> nat \<Rightarrow> listed_credential list \<Rightarrow> credential_row list" where
  "list_my_antigravity_credentials isoformat uid table =
     (let creds = filter (\<lambda>c. user_id c = uid \<and> api_type c = MODE) table
      in map (list_entry isoformat) creds)"

section \<open>Export (\<open>export_my_antigravity_credential\<close>, \<open>export_antigravity_credentials\<close>)\<close>

text \<open>
  \<open>decrypt_credential\<close> belongs to \<open>app.services.crypto\<close>, which is outside the
  routers; it is the parameter \<open>dec\<close>.  The exported JSON object is an association
  list in the order the dictionary literal is written.
\<close>

definition decrypt_or_empty :: "(string \<Rightarrow> string) \<Rightarrow> string option \<Rightarrow> string" where
  "decrypt_or_empty dec v = (if truthy_str v then dec (or_empty v) else [])"

definition export_cred_data ::
  "settings \<Rightarrow> (string \<Rightarrow> string) \<Rightarrow> credential \<Rightarrow> (string \<times> string) list" where
  "export_cred_data st dec cred =
     [(''client_id'', google_client_id st),
      (''client_secret'', google_client_secret st),
      (''refresh_token'', decrypt_or_empty dec (refresh_token cred)),
      (''token'', decrypt_or_empty dec (api_key cred)),
      (''project_id'', or_empty (project_id cred)),
      (''email'', or_empty (email cred)),
      (''type'', ''authorized_user'')]"

definition export_my_antigravity_credential ::
  "settings \<Rightarrow> (string \<Rightarrow> string) \<Rightarrow> nat \<Rightarrow> nat \<Rightarrow> credential list
     \<Rightarrow> http_error + (string \<times> string) list" where
  "export_my_antigravity_credential st dec cid uid db =
     (case scalar_one_or_none
             (filter (\<lambda>c. cred_id c = cid \<and> user_id c = uid \<and> api_type c = MODE) db) of
        Inl _ \<Rightarrow> Inl (HTTPException 500)
      | Inr None \<Rightarrow> Inl (HTTPException 404)
      | Inr (Some cred) \<Rightarrow> Inr (export_cred_data st dec cred))"

text \<open>
  The admin bulk export: one archive member per Antigravity credential, named
  \<open>f"{cred.email or cred.id}.json"\<close>; the member has no \<open>type\<close> field.
\<close>

definition export_bulk_data ::
  "settings \<Rightarrow> (string \<Rightarrow> string) \<Rightarrow> credential \<Rightarrow> (string \<times> string) list" where
  "export_bulk_data st dec cred =
     [(''client_id'', google_client_id st),
      (''client_secret'', google_client_secret st),
      (''refresh_token'', decrypt_or_empty dec (refresh_token cred)),
      (''token'', decrypt_or_empty dec (api_key cred)),
      (''project_id'', or_empty (project_id cred)),
      (''email'', or_empty (email cred))]"

definition export_filename :: "credential \<Rightarrow> string" where
  "export_filename cred =
     (if truthy_str (email cred) then or_empty (email cred) else str_nat (cred_id cred))
       @ ''.json''"

definition export_antigravity_credentials ::
  "settings \<Rightarrow> (string \<Rightarrow> string) \<Rightarrow> credential list
     \<Rightarrow> (string \<times> (string \<times> string) list) list" where
  "export_antigravity_credentials st dec db =
     map (\<lambda>cred. (export_filename cred, export_bulk_data st dec cred))
         (filter (\<lambda>c. api_type c = MODE) db)"

section \<open>Deletion of credentials\<close>

text \<open>
  \<open>update(UsageLog).where(UsageLog.credential_id.in_(ids)).values(credential_id=None)\<close>
  (with a one-element list for \<open>==\<close>), and \<open>db.delete(cred)\<close>.  Commits are taken to
  succeed.
\<close>

definition null_usage_refs :: "nat list \<Rightarrow> database \<Rightarrow> database" where
  "null_usage_refs ids db =
     db\<lparr>usage_logs :=
          map (\<lambda>l. case credential_id l of
                      None \<Rightarrow> l
                    | Some i \<Rightarrow> if i \<in> set ids then l\<lparr>credential_id := None\<rparr> else l)
              (usage_logs db)\<rparr>"

definition db_delete :: "credential \<Rightarrow> database \<Rightarrow> database" where
  "db_delete cred db =
     db\<lparr>credentials := filter (\<lambda>c. cred_id c \<noteq> cred_id cred) (credentials db)\<rparr>"

definition delete_my_antigravity_credential ::
  "nat \<Rightarrow> nat \<Rightarrow> database \<Rightarrow> http_error + database" where
  "delete_my_antigravity_credential cid uid db =
     (case scalar_one_or_none
             (filter (\<lambda>c. cred_id c = cid \<and> user_id c = uid \<and> api_type c = MODE)
                     (credentials db)) of
        Inl _ \<Rightarrow> Inl (HTTPException 500)
      | Inr None \<Rightarrow> Inl (HTTPException 404)
      | Inr (Some cred) \<Rightarrow> Inr (db_delete cred (null_usage_refs [cid] db)))"

text \<open>
  The loop \<open>for cred in inactive_creds: await db.delete(cred)\<close>, counting the rows as
  the user's bulk path does.
\<close>

fun delete_all :: "credential list \<Rightarrow> database \<times> nat \<Rightarrow> database \<times> nat" where
  "delete_all [] (db, deleted_count) = (db, deleted_count)"
| "delete_all (cred # rest) (db, deleted_count) =
     delete_all rest (db_delete cred db, deleted_count + 1)"

definition delete_my_inactive_antigravity_credentials ::
  "nat \<Rightarrow> database \<Rightarrow> database \<times> nat" where
  "delete_my_inactive_antigravity_credentials uid db =
     (let inactive_creds =
            filter (\<lambda>c. user_id c = uid \<and> api_type c = MODE \<and> is_active c = False)
                   (credentials db)
      in if inactive_creds = [] then (db, 0)
         else (let cred_ids = map cred_id inactive_creds
               in delete_all inactive_creds (null_usage_refs cred_ids db, 0)))"

definition delete_inactive_antigravity_credentials :: "database \<Rightarrow> database \<times> nat" where
  "delete_inactive_antigravity_credentials db =
     (let inactive_creds =
            filter (\<lambda>c. api_type c = MODE \<and> is_active c = False) (credentials db)
      in if inactive_creds = [] then (db, 0)
         else (let deleted_count = length inactive_creds;
                   cred_ids = map cred_id inactive_creds
               in (fst (delete_all inactive_creds (null_usage_refs cred_ids db, 0)),
                   deleted_count)))"

text \<open>What nulling the references to \<open>ids\<close> does to one usage-log reference.\<close>

definition nulled_ref :: "nat list \<Rightarrow> nat option \<Rightarrow> nat option" where
  "nulled_ref ids r =
     (case r of None \<Rightarrow> None | Some i \<Rightarrow> if i \<in> set ids then None else Some i)"


section \<open>Project-id resolution (\<open>fetch_antigravity_project_id\<close>)\<close>

text \<open>
  A decoded JSON value.  \<open>JNull\<close> is Python's \<open>None\<close>; the keys of an object are
  distinct, as in a Python \<open>dict\<close>.
\<close>

datatype json =
    JNull
  | JBool bool
  | JInt int
  | JStr string
  | JArr "json list"
  | JObj "(string \<times> json) list"

fun truthy :: "json \<Rightarrow> bool" where
  "truthy JNull = False"
| "truthy (JBool b) = b"
| "truthy (JInt i) = (i \<noteq> 0)"
| "truthy (JStr s) = (s \<noteq> [])"
| "truthy (JArr xs) = (xs \<noteq> [])"
| "truthy (JObj kv) = (kv \<noteq> [])"

text \<open>
  \<open>data.get(key, default)\<close>.  The result is \<open>None\<close> when \<open>data\<close> is not a \<open>dict\<close>
  and the call raises \<open>AttributeError\<close>; inside the \<open>try\<close> blocks of this module every
  exception takes the same path.
\<close>

fun dict_get :: "json \<Rightarrow> string \<Rightarrow> json \<Rightarrow> json option" where
  "dict_get (JObj kv) k d = Some (case map_of kv k of None \<Rightarrow> d | Some v \<Rightarrow> v)"
| "dict_get _ k d = None"

text \<open>\<open>for tier in value\<close>: the items, or \<open>None\<close> when the value is not iterable.\<close>

fun py_iter :: "json \<Rightarrow> json list option" where
  "py_iter (JArr xs) = Some xs"
| "py_iter (JObj kv) = Some (map (\<lambda>p. JStr (fst p)) kv)"
| "py_iter (JStr s) = Some (map (\<lambda>c. JStr [c]) s)"
| "py_iter _ = None"

text \<open>
  The reply to one \<open>client.post\<close>: an exception, or a status code with the decoded
  body (\<open>None\<close> when \<open>response.json()\<close> raises).
\<close>

type_synonym http_reply = "(nat \<times> json option) outcome"

datatype api_event = LoadCodeAssist | OnboardUser json | Sleep nat

text \<open>Step 1 (lines 62-93): the project id of an activated account, else \<open>JNull\<close>.\<close>

definition load_code_assist_project :: "http_reply \<Rightarrow> json" where
  "load_code_assist_project reply =
     (case reply of
        Raised e \<Rightarrow> JNull
      | Returned (status, body) \<Rightarrow>
          if status = 200 then
            (case body of
               None \<Rightarrow> JNull
             | Some data \<Rightarrow>
                 (case dict_get data ''currentTier'' JNull of
                    None \<Rightarrow> JNull
                  | Some current_tier \<Rightarrow>
                      if truthy current_tier then
                        (case dict_get data ''cloudaicompanionProject'' JNull of
                           None \<Rightarrow> JNull
                         | Some pid \<Rightarrow> if truthy pid then pid else JNull)
                      else JNull))
          else JNull)"

text \<open>
  The loop of \<open>_get_onboard_tier\<close> (lines 170-178): the id of the first tier flagged
  default, \<open>"LEGACY"\<close> when none is flagged, \<open>None\<close> when an item is not a \<open>dict\<close>.
\<close>

fun default_tier :: "json list \<Rightarrow> json option" where
  "default_tier [] = Some (JStr ''LEGACY'')"
| "default_tier (tier # rest) =
     (case dict_get tier ''isDefault'' JNull of
        None \<Rightarrow> None
      | Some is_default \<Rightarrow>
          if truthy is_default then dict_get tier ''id'' JNull else default_tier rest)"

definition get_onboard_tier :: "http_reply \<Rightarrow> json" where
  "get_onboard_tier reply =
     (case reply of
        Raised e \<Rightarrow> JNull
      | Returned (status, body) \<Rightarrow>
          if status = 200 then
            (case body of
               None \<Rightarrow> JNull
             | Some data \<Rightarrow>
                 (case dict_get data ''allowedTiers'' (JArr []) of
                    None \<Rightarrow> JNull
                  | Some allowed_tiers \<Rightarrow>
                      (case py_iter allowed_tiers of
                         None \<Rightarrow> JNull
                       | Some tiers \<Rightarrow>
                           (case default_tier tiers of None \<Rightarrow> JNull | Some t \<Rightarrow> t))))
          else JNull)"

text \<open>
  The completion payload (lines 124-132): the project is an object with an \<open>id\<close>, or
  a bare string.  \<open>None\<close> when \<open>response\<close> is not a \<open>dict\<close>.
\<close>

definition completion_project :: "json \<Rightarrow> json option" where
  "completion_project data =
     (case dict_get data ''response'' (JObj []) of
        None \<Rightarrow> None
      | Some response_data \<Rightarrow>
          (case dict_get response_data ''cloudaicompanionProject'' (JObj []) of
             None \<Rightarrow> None
           | Some project_obj \<Rightarrow>
               (case project_obj of
                  JObj kv \<Rightarrow> dict_get project_obj ''id'' JNull
                | JStr s \<Rightarrow> Some project_obj
                | _ \<Rightarrow> Some JNull)))"

text \<open>
  The polling loop \<open>for attempt in range(5)\<close> (lines 117-144).  \<open>onboard k\<close> is the
  reply of the provisioning endpoint to the call number \<open>k\<close> (from 0); \<open>remaining\<close>
  counts the iterations left.  The result is the value returned (\<open>JNull\<close> for
  \<open>None\<close>) with the calls made and the pauses taken, in order.
\<close>

fun onboard_poll ::
  "(nat \<Rightarrow> http_reply) \<Rightarrow> json \<Rightarrow> nat \<Rightarrow> nat \<Rightarrow> json \<times> api_event list" where
  "onboard_poll onboard tier_id attempt 0 = (JNull, [])"
| "onboard_poll onboard tier_id attempt (Suc remaining) =
     (case onboard attempt of
        Raised e \<Rightarrow> (JNull, [OnboardUser tier_id])
      | Returned (status, body) \<Rightarrow>
          if status = 200 then
            (case body of
               None \<Rightarrow> (JNull, [OnboardUser tier_id])
             | Some data \<Rightarrow>
                 (case dict_get data ''done'' JNull of
                    None \<Rightarrow> (JNull, [OnboardUser tier_id])
                  | Some done \<Rightarrow>
                      if truthy done then
                        (case completion_project data of
                           None \<Rightarrow> (JNull, [OnboardUser tier_id])
                         | Some pid \<Rightarrow>
                             if truthy pid then (pid, [OnboardUser tier_id])
                             else (JNull, [OnboardUser tier_id]))
                      else
                        (let (r, evs) = onboard_poll onboard tier_id (Suc attempt) remaining
                         in (r, OnboardUser tier_id # Sleep 2 # evs))))
          else (JNull, [OnboardUser tier_id]))"

text \<open>
  \<open>discovery k\<close> is the reply of the discovery endpoint (\<open>loadCodeAssist\<close>) to its
  call number \<open>k\<close>: call 0 is step 1, call 1 is the tier lookup of step 2.
\<close>

definition fetch_antigravity_project_id ::
  "(nat \<Rightarrow> http_reply) \<Rightarrow> (nat \<Rightarrow> http_reply) \<Rightarrow> json \<times> api_event list" where
  "fetch_antigravity_project_id discovery onboard =
     (let pid = load_code_assist_project (discovery 0)
      in if truthy pid then (pid, [LoadCodeAssist])
         else (let tier_id = get_onboard_tier (discovery 1)
               in if \<not> truthy tier_id then (JNull, [LoadCodeAssist, LoadCodeAssist])
                  else (let (r, evs) = onboard_poll onboard tier_id 0 5
                        in (r, LoadCodeAssist # LoadCodeAssist # evs))))"

fun is_onboard_call :: "api_event \<Rightarrow> bool" where
  "is_onboard_call (OnboardUser t) = True"
| "is_onboard_call _ = False"

text \<open>The longest possible polling trace: five calls, each followed by a 2-second pause.\<close>

definition full_polling :: "json \<Rightarrow> api_event list" where
  "full_polling tier_id = concat (replicate 5 [OnboardUser tier_id, Sleep 2])"

section \<open>Upload (\<open>upload_antigravity_credentials\<close>)\<close>

text \<open>
  The text of one JSON file after \<open>json.loads\<close>: a decoding error, a value that is
  not an object (every such value ends in the generic handler), or an object.  The
  fields of a credential file are strings.
\<close>

datatype json_file = JsonDecodeError | NotAnObject | Doc "(string \<times> string) list"

text \<open>
  What the upstream answers while one credential is verified:
  \<open>CredentialPool.get_access_token\<close> (or \<open>refresh_access_token\<close> in the batch),
  \<open>fetch_project_id\<close> and the probe request.  The first two belong to
  \<open>app.services.credential_pool\<close>; they are taken by their outcome.
\<close>

record upstream =
  token_reply :: "string option outcome"
  project_reply :: "string option outcome"
  probe_reply :: "nat outcome"

type_synonym upload_entry = "string \<times> json_file \<times> upstream"

text \<open>
  An uploaded file: one whose name ends in \<open>.zip\<close>, with its members (\<open>None\<close> when
  the bytes are not an archive), one whose name ends in \<open>.json\<close>, or any other.
  \<open>ZipUnreadable\<close> is an archive that opens and lists its members, where reading a
  member whose name passes the filter raises: it carries the members listed before
  that one.
\<close>

datatype upload_file =
    ZipUpload string "upload_entry list option"
  | ZipUnreadable string "upload_entry list"
  | JsonUpload string json_file upstream
  | OtherUpload string

datatype upload_status = Success | Warning | Error | Skip | Info

definition fresh_id :: "credential list \<Rightarrow> nat" where
  "fresh_id db = Suc (fold max (map cred_id db) 0)"

text \<open>Lines 57-81: the archive members and plain files to process, and the first results.\<close>

fun collect_json_files ::
  "upload_file list \<Rightarrow> upload_entry list \<times> (string \<times> upload_status) list
     \<Rightarrow> upload_entry list \<times> (string \<times> upload_status) list" where
  "collect_json_files [] acc = acc"
| "collect_json_files (ZipUpload fname None # files) (json_files, results) =
     collect_json_files files (json_files, results @ [(fname, Error)])"
| "collect_json_files (ZipUpload fname (Some members) # files) (json_files, results) =
     collect_json_files files
       (json_files @ filter (\<lambda>m. suffix ''.json'' (fst m) \<and> \<not> prefix ''__MACOSX'' (fst m)) members,
        results @ [(fname, Info)])"
| "collect_json_files (ZipUnreadable fname members # files) (json_files, results) =
     collect_json_files files
       (json_files @ filter (\<lambda>m. suffix ''.json'' (fst m) \<and> \<not> prefix ''__MACOSX'' (fst m)) members,
        results @ [(fname, Error)])"
| "collect_json_files (JsonUpload fname content net # files) (json_files, results) =
     collect_json_files files (json_files @ [(fname, content, net)], results)"
| "collect_json_files (OtherUpload fname # files) (json_files, results) =
     collect_json_files files (json_files, results @ [(fname, Error)])"

text \<open>Lines 150-172: the probe, once an access token is at hand.\<close>

definition upload_probe :: "string option \<Rightarrow> upstream \<Rightarrow> bool \<times> string option" where
  "upload_probe pid net =
     (if truthy_str pid then
        (case probe_reply net of
           Raised e \<Rightarrow> (False, pid)
         | Returned status \<Rightarrow> (status = 200 \<or> status = 429, pid))
      else (False, pid))"

text \<open>Lines 120-176: \<open>(is_valid, project_id)\<close>.\<close>

definition upload_verify :: "(string \<times> string) list \<Rightarrow> upstream \<Rightarrow> bool \<times> string option" where
  "upload_verify cred_data net =
     (let pid0 = Some (case map_of cred_data ''project_id'' of None \<Rightarrow> [] | Some p \<Rightarrow> p)
      in case token_reply net of
           Raised e \<Rightarrow> (False, pid0)
         | Returned access_token \<Rightarrow>
             if truthy_str access_token then
               (if \<not> truthy_str pid0 then
                  (case project_reply net of
                     Raised e \<Rightarrow> (False, pid0)
                   | Returned pid \<Rightarrow> upload_probe pid net)
                else upload_probe pid0 net)
             else (False, pid0))"

text \<open>\<open>cred_data.get("email") or filename\<close>.\<close>

definition upload_email :: "(string \<times> string) list \<Rightarrow> string \<Rightarrow> string" where
  "upload_email cred_data fname =
     (if truthy_str (map_of cred_data ''email'') then or_empty (map_of cred_data ''email'')
      else fname)"

text \<open>Lines 181-195; \<open>encrypt_credential\<close> is the parameter \<open>enc\<close>.\<close>

definition upload_credential ::
  "(string \<Rightarrow> string) \<Rightarrow> nat \<Rightarrow> nat \<Rightarrow> (string \<times> string) list \<Rightarrow> string \<Rightarrow> string
     \<Rightarrow> string option \<Rightarrow> bool \<Rightarrow> bool \<Rightarrow> credential" where
  "upload_credential enc new_id uid cred_data mail rt pid actual_public is_valid =
     \<lparr>cred_id = new_id, user_id = uid, name = ''Antigravity - '' @ mail, email = Some mail,
      api_key = Some (enc (if truthy_str (map_of cred_data ''token'')
                           then or_empty (map_of cred_data ''token'')
                           else or_empty (map_of cred_data ''access_token''))),
      refresh_token = Some (enc rt),
      client_id = (if truthy_str (map_of cred_data ''client_id'')
                   then Some (enc (or_empty (map_of cred_data ''client_id''))) else None),
      client_secret = (if truthy_str (map_of cred_data ''client_secret'')
                       then Some (enc (or_empty (map_of cred_data ''client_secret''))) else None),
      project_id = pid, credential_type = ''oauth'', is_public = actual_public,
      is_active = is_valid, last_error = None, api_type = MODE, model_tier = ''2.5''\<rparr>"

text \<open>
  One iteration of the loop over \<open>json_files\<close> (lines 84-219).  A pending
  \<open>db.add\<close> is visible to the queries of later iterations (the session flushes
  before a query).
\<close>

fun upload_entry_step ::
  "(string \<Rightarrow> string) \<Rightarrow> nat \<Rightarrow> bool \<Rightarrow> upload_entry
     \<Rightarrow> credential list \<times> (string \<times> upload_status) list \<times> nat
     \<Rightarrow> credential list \<times> (string \<times> upload_status) list \<times> nat" where
  "upload_entry_step enc uid public (fname, content, net) (db, results, success_count) =
     (case content of
        JsonDecodeError \<Rightarrow> (db, results @ [(fname, Error)], success_count)
      | NotAnObject \<Rightarrow> (db, results @ [(fname, Error)], success_count)
      | Doc cred_data \<Rightarrow>
          (case map_of cred_data ''refresh_token'' of
             None \<Rightarrow> (db, results @ [(fname, Error)], success_count)
           | Some rt \<Rightarrow>
               (let mail = upload_email cred_data fname
                in (case scalar_one_or_none
                          (filter (\<lambda>c. email c = Some mail \<and> api_type c = MODE) db) of
                     Inl _ \<Rightarrow> (db, results @ [(fname, Error)], success_count)
                   | Inr (Some _) \<Rightarrow> (db, results @ [(fname, Skip)], success_count)
                   | Inr None \<Rightarrow>
                       (case scalar_one_or_none
                               (filter (\<lambda>c. refresh_token c = Some (enc rt)
                                             \<and> api_type c = MODE) db) of
                          Inl _ \<Rightarrow> (db, results @ [(fname, Error)], success_count)
                        | Inr (Some _) \<Rightarrow> (db, results @ [(fname, Skip)], success_count)
                        | Inr None \<Rightarrow>
                            (case upload_verify cred_data net of
                               (is_valid, pid) \<Rightarrow>
                                 (let actual_public = (public \<and> is_valid);
                                      cred = upload_credential enc (fresh_id db) uid cred_data
                                               mail rt pid actual_public is_valid
                                  in (db @ [cred],
                                      results @ [(fname, if is_valid then Success else Warning)],
                                      success_count + 1))))))))"

declare upload_entry_step.simps [simp del]

fun upload_entries ::
  "(string \<Rightarrow> string) \<Rightarrow> nat \<Rightarrow> bool \<Rightarrow> upload_entry list
     \<Rightarrow> credential list \<times> (string \<times> upload_status) list \<times> nat
     \<Rightarrow> credential list \<times> (string \<times> upload_status) list \<times> nat" where
  "upload_entries enc uid public [] st = st"
| "upload_entries enc uid public (entry # rest) st =
     upload_entries enc uid public rest (upload_entry_step enc uid public entry st)"

text \<open>
  The endpoint: the stored credentials afterwards and the response
  \<open>(uploaded_count, total_count, results)\<close>.
\<close>

definition upload_antigravity_credentials ::
  "settings \<Rightarrow> (string \<Rightarrow> string) \<Rightarrow> nat \<Rightarrow> bool \<Rightarrow> upload_file list \<Rightarrow> credential list
     \<Rightarrow> http_error + credential list \<times> nat \<times> nat \<times> (string \<times> upload_status) list" where
  "upload_antigravity_credentials st enc uid public_flag files db =
     (if files = [] then Inl (HTTPException 400)
      else (let public = (if force_donate st then True else public_flag)
            in (case collect_json_files files ([], []) of
                  (json_files, results0) \<Rightarrow>
                    (case upload_entries enc uid public json_files (db, results0, 0) of
                       (db', results, success_count) \<Rightarrow>
                         Inr (db', success_count, length json_files, results)))))"

section \<open>Visibility and activity updates (\<open>update_my_antigravity_credential\<close>)\<close>

definition db_update :: "credential \<Rightarrow> credential list \<Rightarrow> credential list" where
  "db_update cred db = map (\<lambda>c. if cred_id c = cred_id cred then cred else c) db"

definition update_my_antigravity_credential ::
  "nat \<Rightarrow> bool option \<Rightarrow> bool option \<Rightarrow> nat \<Rightarrow> credential list
     \<Rightarrow> http_error + credential list \<times> bool \<times> bool" where
  "update_my_antigravity_credential cid public active uid db =
     (case scalar_one_or_none
             (filter (\<lambda>c. cred_id c = cid \<and> user_id c = uid \<and> api_type c = MODE) db) of
        Inl _ \<Rightarrow> Inl (HTTPException 500)
      | Inr None \<Rightarrow> Inl (HTTPException 404)
      | Inr (Some cred) \<Rightarrow>
          if public = Some True \<and> \<not> is_active cred then Inl (HTTPException 400)
          else if public = Some True \<and> has_auth_error (last_error cred)
            then Inl (HTTPException 400)
          else (let cred1 = (case public of None \<Rightarrow> cred | Some p \<Rightarrow> cred\<lparr>is_public := p\<rparr>);
                    cred2 = (case active of None \<Rightarrow> cred1 | Some a \<Rightarrow> cred1\<lparr>is_active := a\<rparr>)
                in Inr (db_update cred2 db, is_public cred2, is_active cred2)))"

section \<open>OAuth callback (\<open>antigravity_credential_from_callback_url\<close>)\<close>

text \<open>
  What the outside world supplies to one callback: the \<open>code\<close> parameter of the
  URL, the token exchange (an error object, or the token pair), the e-mail of the user
  info, the project id resolved by \<open>fetch_antigravity_project_id\<close> (as a string),
  the eight hexadecimal digits of the random fallback, and the two probe replies.
\<close>

datatype token_data = TokenError | TokenPair string string

record callback =
  code :: "string option"
  token_exchange :: token_data
  userinfo_email :: "string option"
  resolved_project :: "string option"
  random_id :: string
  probe_25 :: "nat outcome"
  probe_3 :: "nat outcome"
  data_is_public :: bool

text \<open>Lines 325-359: \<open>(is_valid, detected_tier)\<close>.\<close>

definition callback_probe :: "nat outcome \<Rightarrow> nat outcome \<Rightarrow> bool \<times> string" where
  "callback_probe first second =
     (case first of
        Raised e \<Rightarrow> (True, ''2.5'')
      | Returned status \<Rightarrow>
          if status = 200 \<or> status = 429 then
            (case second of
               Raised e \<Rightarrow> (True, ''2.5'')
             | Returned status_3 \<Rightarrow>
                 if status_3 = 200 \<or> status_3 = 429 then (True, ''3'') else (True, ''2.5''))
          else if status = 401 \<or> status = 403 then (False, ''2.5'')
          else (True, ''2.5''))"

text \<open>
  The endpoint: the stored credentials and the user's \<open>daily_quota\<close> afterwards, and
  of the response the fields \<open>is_public\<close>, \<open>is_valid\<close>, \<open>model_tier\<close> and
  \<open>reward_quota\<close>.
\<close>

definition antigravity_credential_from_callback_url ::
  "settings \<Rightarrow> (string \<Rightarrow> string) \<Rightarrow> callback \<Rightarrow> nat \<Rightarrow> int \<Rightarrow> credential list
     \<Rightarrow> http_error + credential list \<times> int \<times> bool \<times> bool \<times> string \<times> int" where
  "antigravity_credential_from_callback_url st enc cb uid daily_quota db =
     (if \<not> truthy_str (code cb) then Inl (HTTPException 400)
      else case token_exchange cb of
        TokenError \<Rightarrow> Inl (HTTPException 400)
      | TokenPair access_token refresh \<Rightarrow>
          (let mail = (case userinfo_email cb of None \<Rightarrow> ''unknown'' | Some m \<Rightarrow> m);
               pid = (if truthy_str (resolved_project cb) then or_empty (resolved_project cb)
                      else ''projects/random-'' @ random_id cb @ ''/locations/global'')
           in case scalar_one_or_none
                     (filter (\<lambda>c. user_id c = uid \<and> email c = Some mail
                                   \<and> api_type c = ''antigravity'') db) of
                Inl _ \<Rightarrow> Inl (HTTPException 500)
              | Inr existing \<Rightarrow>
                  (let is_new_credential = (existing = None);
                       cred0 =
                         (case existing of
                            Some old \<Rightarrow>
                              old\<lparr>api_key := Some (enc access_token),
                                  refresh_token := Some (enc refresh), project_id := Some pid\<rparr>
                          | None \<Rightarrow>
                              \<lparr>cred_id = fresh_id db, user_id = uid,
                               name = ''Antigravity - '' @ mail, email = Some mail,
                               api_key = Some (enc access_token),
                               refresh_token = Some (enc refresh), client_id = None,
                               client_secret = None, project_id = Some pid,
                               credential_type = ''oauth'', is_public = data_is_public cb,
                               is_active = True, last_error = None,
                               api_type = ''antigravity'', model_tier = []\<rparr>)
                   in case callback_probe (probe_25 cb) (probe_3 cb) of
                        (is_valid, detected_tier) \<Rightarrow>
                          (let cred1 = cred0\<lparr>model_tier := detected_tier, is_active := is_valid\<rparr>;
                               db' = (if is_new_credential then db @ [cred1]
                                      else db_update cred1 db);
                               reward_quota =
                                 (if is_new_credential \<and> data_is_public cb \<and> is_valid then
                                    (if detected_tier = ''3''
                                     then quota_flash st + quota_25pro st + quota_30pro st
                                     else quota_flash st + quota_25pro st)
                                  else 0)
                           in Inr (db', daily_quota + reward_quota, data_is_public cb,
                                   is_valid, detected_tier, reward_quota)))))"

section \<open>Verification (\<open>verify_my_antigravity_credential\<close> and the verify-all batch)\<close>

definition msg_not_found :: ustr where
  "msg_not_found = [0x51ED, 0x8BC1, 0x4E0D, 0x5B58, 0x5728]"

definition msg_token_exception :: ustr where
  "msg_token_exception = [0x83B7, 0x53D6] @ asc '' token '' @ [0x5F02, 0x5E38] @ asc '': ''"

definition msg_no_access_token :: ustr where
  "msg_no_access_token = [0x65E0, 0x6CD5, 0x83B7, 0x53D6] @ asc '' access token''"

definition msg_check_exception :: ustr where
  "msg_check_exception = [0x68C0, 0x6D4B, 0x5F02, 0x5E38] @ asc '': ''"

text \<open>\<open>error_msg if error_msg else None\<close>.\<close>

fun or_none :: "ustr option \<Rightarrow> ustr option" where
  "or_none None = None"
| "or_none (Some m) = (if m = [] then None else Some m)"

text \<open>
  The user's single verification (lines 386-475): the stored credentials afterwards
  and the response \<open>(is_valid, project_id, error)\<close>.  An exception outside the
  inner handlers reaches the outer handler, which answers without a commit.
\<close>

definition verify_my_antigravity_credential ::
  "nat \<Rightarrow> nat \<Rightarrow> upstream \<Rightarrow> credential list
     \<Rightarrow> credential list \<times> bool \<times> string option \<times> ustr option" where
  "verify_my_antigravity_credential cid uid net db =
     (case scalar_one_or_none
             (filter (\<lambda>c. cred_id c = cid \<and> user_id c = uid \<and> api_type c = MODE) db) of
        Inl _ \<Rightarrow> (db, False, None, Some msg_check_exception)
      | Inr None \<Rightarrow> (db, False, None, Some msg_not_found)
      | Inr (Some cred) \<Rightarrow>
          (case token_reply net of
             Raised e \<Rightarrow>
               (db_update (cred\<lparr>is_active := False,
                                 last_error := Some (msg_token_exception @ take 50 e)\<rparr>) db,
                False, None, Some (msg_token_exception @ take 50 e))
           | Returned access_token \<Rightarrow>
               if \<not> truthy_str access_token then
                 (db_update (cred\<lparr>is_active := False,
                                   last_error := Some msg_no_access_token\<rparr>) db,
                  False, None, Some msg_no_access_token)
               else
                 (case project_reply net of
                    Raised e \<Rightarrow> (db, False, None, Some (msg_check_exception @ take 50 e))
                  | Returned new_project_id \<Rightarrow>
                      (let cred1 = (if truthy_str new_project_id
                                    then cred\<lparr>project_id := new_project_id\<rparr> else cred)
                       in case (if truthy_str (project_id cred1)
                                then classify_probe (probe_reply net)
                                else (False, Some msg_no_project_id)) of
                            (is_valid, error_msg) \<Rightarrow>
                              (db_update (cred1\<lparr>is_active := is_valid,
                                                last_error := or_none error_msg\<rparr>) db,
                               is_valid, project_id cred1, error_msg)))))"

text \<open>
  The admin's single verification (lines 810-886): the same steps without the user
  filter and without handlers around the two service calls.
\<close>

definition admin_verify_antigravity_credential ::
  "nat \<Rightarrow> upstream \<Rightarrow> credential list
     \<Rightarrow> http_error + credential list \<times> bool \<times> string option \<times> ustr option" where
  "admin_verify_antigravity_credential cid net db =
     (case scalar_one_or_none (filter (\<lambda>c. cred_id c = cid \<and> api_type c = MODE) db) of
        Inl _ \<Rightarrow> Inl (HTTPException 500)
      | Inr None \<Rightarrow> Inl (HTTPException 404)
      | Inr (Some cred) \<Rightarrow>
          (case token_reply net of
             Raised e \<Rightarrow> Inl (HTTPException 500)
           | Returned access_token \<Rightarrow>
               if \<not> truthy_str access_token then
                 Inr (db_update (cred\<lparr>is_active := False,
                                       last_error := Some msg_no_access_token\<rparr>) db,
                      False, None, Some msg_no_access_token)
               else
                 (case project_reply net of
                    Raised e \<Rightarrow> Inl (HTTPException 500)
                  | Returned new_project_id \<Rightarrow>
                      (let cred1 = (if truthy_str new_project_id
                                    then cred\<lparr>project_id := new_project_id\<rparr> else cred)
                       in case (if truthy_str (project_id cred1)
                                then classify_probe (probe_reply net)
                                else (False, Some msg_no_project_id)) of
                            (is_valid, error_msg) \<Rightarrow>
                              Inr (db_update (cred1\<lparr>is_active := is_valid,
                                                    last_error := or_none error_msg\<rparr>) db,
                                   is_valid, project_id cred1, error_msg)))))"

text \<open>
  The verify-all batch (lines 919-997).  \<open>verify_single\<close> gives, for one credential,
  the dictionary \<open>{"id", "is_valid", "project_id", "token"}\<close>; an absent key is
  \<open>None\<close>.
\<close>

record batch_result =
  res_id :: nat
  res_is_valid :: bool
  res_project_id :: "string option"
  res_token :: "string option"

definition verify_single :: "credential \<Rightarrow> upstream \<Rightarrow> batch_result" where
  "verify_single data net =
     (let failed = \<lparr>res_id = cred_id data, res_is_valid = False, res_project_id = None,
                     res_token = None\<rparr>
      in case (if truthy_str (refresh_token data) then token_reply net else Returned None) of
           Raised e \<Rightarrow> failed
         | Returned access_token \<Rightarrow>
             if \<not> truthy_str access_token then failed
             else
               (case (if \<not> truthy_str (project_id data) then project_reply net
                      else Returned (project_id data)) of
                  Raised e \<Rightarrow> failed
                | Returned pid \<Rightarrow>
                    (if truthy_str pid then
                       (case probe_reply net of
                          Raised e \<Rightarrow> failed
                        | Returned status \<Rightarrow>
                            \<lparr>res_id = cred_id data,
                             res_is_valid = verify_single_probe (probe_reply net),
                             res_project_id = pid, res_token = access_token\<rparr>)
                     else \<lparr>res_id = cred_id data, res_is_valid = False,
                           res_project_id = pid, res_token = access_token\<rparr>)))"

text \<open>
  Lines 979-988: the \<open>UPDATE\<close> of one result.  \<open>update_vals\<close> holds \<open>is_active\<close>,
  and \<open>project_id\<close> and \<open>api_key\<close> when the result carries them.
\<close>

definition apply_batch_result ::
  "(string \<Rightarrow> string) \<Rightarrow> batch_result \<Rightarrow> credential list \<Rightarrow> credential list" where
  "apply_batch_result enc res db =
     map (\<lambda>c. if cred_id c = res_id res then
                 (let c1 = c\<lparr>is_active := res_is_valid res\<rparr>;
                      c2 = (if truthy_str (res_project_id res)
                            then c1\<lparr>project_id := res_project_id res\<rparr> else c1)
                  in if truthy_str (res_token res)
                     then c2\<lparr>api_key := Some (enc (or_empty (res_token res)))\<rparr> else c2)
               else c) db"

definition verify_all_antigravity_credentials ::
  "(string \<Rightarrow> string) \<Rightarrow> (nat \<Rightarrow> upstream) \<Rightarrow> credential list \<Rightarrow> credential list" where
  "verify_all_antigravity_credentials enc net_of db =
     (let creds = filter (\<lambda>c. api_type c = MODE) db;
          results = map (\<lambda>c. verify_single c (net_of (cred_id c))) creds
      in fold (apply_batch_result enc) results db)"

text \<open>
  The visibility invariant of the data model: public only while active and without
  an authentication failure recorded in \<open>last_error\<close>.
\<close>

definition public_ok :: "credential \<Rightarrow> bool" where
  "public_ok c = (if is_public c then is_active c \<and> \<not> has_auth_error (last_error c) else True)"

section \<open>Quota display (\<open>get_antigravity_credential_quota\<close>)\<close>

text \<open>
  A \<open>datetime\<close> by its fields.  \<open>tzinfo\<close> is \<open>None\<close> for a naive \<open>datetime\<close> and
  the UTC offset, in microseconds, for an aware one (\<open>fromisoformat\<close> yields fixed
  offsets: \<open>+00:00\<close> is \<open>Some 0\<close>, \<open>+05:00\<close> is \<open>Some 18000000000\<close>).
  \<open>fromisoformat\<close> is the standard library's parser; it is a parameter (\<open>None\<close>
  when it raises).
\<close>

record datetime =
  year :: nat
  month :: nat
  day :: nat
  hour :: nat
  minute :: nat
  second :: nat
  microsecond :: nat
  tzinfo :: "int option"

definition is_leap :: "nat \<Rightarrow> bool" where
  "is_leap y = (y mod 4 = 0 \<and> (y mod 100 \<noteq> 0 \<or> y mod 400 = 0))"

definition days_in_month :: "nat \<Rightarrow> nat \<Rightarrow> nat" where
  "days_in_month y m =
     (if m = 2 then (if is_leap y then 29 else 28)
      else if m = 4 \<or> m = 6 \<or> m = 9 \<or> m = 11 then 30 else 31)"

text \<open>
  \<open>utc_date + timedelta(hours=8)\<close>: the wall clock eight hours later, on the
  proleptic Gregorian calendar, with the same \<open>tzinfo\<close>; \<open>None\<close> is the
  \<open>OverflowError\<close> past year 9999.
\<close>

definition next_day :: "datetime \<Rightarrow> datetime" where
  "next_day dt =
     (if day dt < days_in_month (year dt) (month dt) then dt\<lparr>day := day dt + 1\<rparr>
      else if month dt < 12 then dt\<lparr>month := month dt + 1, day := 1\<rparr>
      else dt\<lparr>year := year dt + 1, month := 1, day := 1\<rparr>)"

definition add_8_hours :: "datetime \<Rightarrow> datetime option" where
  "add_8_hours dt =
     (if hour dt + 8 < 24 then Some (dt\<lparr>hour := hour dt + 8\<rparr>)
      else (let d = next_day dt
            in if 9999 < year d then None else Some (d\<lparr>hour := hour dt + 8 - 24\<rparr>)))"


definition days_before_month :: "nat \<Rightarrow> nat \<Rightarrow> int" where
  "days_before_month y m = int (sum_list (map (days_in_month y) [1..<m]))"







text \<open>\<open>strftime("%m-%d %H:%M")\<close>: two-digit, zero-padded fields.\<close>

definition pad2 :: "nat \<Rightarrow> string" where
  "pad2 n = (if n < 10 then CHR ''0'' # str_nat n else str_nat n)"

definition strftime_md_hm :: "datetime \<Rightarrow> string" where
  "strftime_md_hm dt =
     pad2 (month dt) @ ''-'' @ pad2 (day dt) @ '' '' @ pad2 (hour dt) @ '':'' @ pad2 (minute dt)"

text \<open>\<open>reset_time_raw.replace("Z", "+00:00")\<close>.\<close>

definition replace_Z :: "string \<Rightarrow> string" where
  "replace_Z s = concat (map (\<lambda>c. if c = CHR ''Z'' then ''+00:00'' else [c]) s)"

text \<open>
  One upstream quota entry: \<open>remaining\<close>, a number, and \<open>resetTime\<close>, a string
  (\<open>None\<close> for an absent key), and the entry surfaced for it.
\<close>

record quota_data =
  q_remaining :: "pynum option"
  q_resetTime :: "string option"

record quota_view =
  v_remaining :: pynum
  v_resetTime :: string
  v_resetTimeRaw :: string

text \<open>The body of the loop over the models (lines 595-623).\<close>

definition quota_model_entry ::
  "(string \<Rightarrow> datetime option) \<Rightarrow> quota_data \<Rightarrow> quota_view" where
  "quota_model_entry fromisoformat quota =
     (let remaining = (case q_remaining quota of None \<Rightarrow> PyInt 0 | Some r \<Rightarrow> r);
          reset_time_raw = (case q_resetTime quota of None \<Rightarrow> [] | Some t \<Rightarrow> t);
          reset_time_beijing =
            (if reset_time_raw = [] then ''N/A''
             else (case fromisoformat (if suffix ''Z'' reset_time_raw
                                       then replace_Z reset_time_raw else reset_time_raw) of
                     None \<Rightarrow> ''N/A''
                   | Some utc_date \<Rightarrow>
                       (case add_8_hours utc_date of
                          None \<Rightarrow> ''N/A''
                        | Some beijing_date \<Rightarrow> strftime_md_hm beijing_date)))
      in \<lparr>v_remaining = py_round_1 (py_mul_100 remaining), v_resetTime = reset_time_beijing,
          v_resetTimeRaw = reset_time_raw\<rparr>)"


section \<open>Cache-backed reads (\<open>cached\<close>, \<open>get_user_by_api_key\<close>)\<close>

text \<open>
  A Python object that a cache read can yield: \<open>None\<close>, an un-awaited coroutine
  object, or a resolved value.
\<close>

datatype 'a pyval = PyNone | Coroutine | Value 'a

text \<open>\<open>callable(getattr(result, "__await__", None))\<close>.\<close>

fun is_awaitable :: "'a pyval \<Rightarrow> bool" where
  "is_awaitable Coroutine = True"
| "is_awaitable _ = False"

text \<open>
  What the calls on \<open>redis_service\<close> evaluate to inside \<open>SimpleCache\<close>: the object
  \<open>get_json(key)\<close> gives (or an exception), and whether \<open>set_json\<close> and \<open>delete\<close>
  raise.  In \<open>redis_service.py\<close> the three are \<open>async def\<close> methods and \<open>cache.py\<close>
  calls them without \<open>await\<close>, so each call gives a coroutine object and does not
  raise: that is \<open>unawaited_redis\<close>.
\<close>

record 'a redis_calls =
  get_json_call :: "string \<Rightarrow> 'a pyval outcome"
  set_json_raises :: bool
  delete_raises :: bool

definition unawaited_redis :: "'a redis_calls" where
  "unawaited_redis =
     \<lparr>get_json_call = (\<lambda>key. Returned Coroutine), set_json_raises = False,
      delete_raises = False\<rparr>"

record 'a simple_cache =
  memory_cache :: "string \<rightharpoonup> 'a pyval"
  memory_expires :: "string \<rightharpoonup> real"

definition cache_pop :: "string \<Rightarrow> 'a simple_cache \<Rightarrow> 'a simple_cache" where
  "cache_pop key c =
     c\<lparr>memory_cache := (memory_cache c)(key := None),
       memory_expires := (memory_expires c)(key := None)\<rparr>"

text \<open>\<open>SimpleCache.get\<close> at time \<open>now\<close>: the object returned and the cache afterwards.\<close>

definition cache_get ::
  "'a redis_calls \<Rightarrow> real \<Rightarrow> string \<Rightarrow> 'a simple_cache \<Rightarrow> 'a pyval \<times> 'a simple_cache" where
  "cache_get redis now key c =
     (let from_redis = (case get_json_call redis key of Raised e \<Rightarrow> PyNone | Returned r \<Rightarrow> r)
      in if from_redis \<noteq> PyNone then (from_redis, c)
         else (case memory_cache c key of
                 None \<Rightarrow> (PyNone, c)
               | Some v \<Rightarrow>
                   (case memory_expires c key of
                      None \<Rightarrow> (v, c)
                    | Some expiry \<Rightarrow> if expiry < now then (PyNone, cache_pop key c) else (v, c))))"

text \<open>\<open>SimpleCache.set\<close>: the memory cache is written only when \<open>set_json\<close> raises.\<close>

definition cache_set ::
  "'a redis_calls \<Rightarrow> real \<Rightarrow> string \<Rightarrow> 'a pyval \<Rightarrow> real \<Rightarrow> 'a simple_cache \<Rightarrow> 'a simple_cache" where
  "cache_set redis now key v ttl c =
     (if set_json_raises redis
      then c\<lparr>memory_cache := (memory_cache c)(key \<mapsto> v),
             memory_expires := (memory_expires c)(key \<mapsto> now + ttl)\<rparr>
      else c)"

text \<open>\<open>SimpleCache.delete\<close>: the memory entry is popped whether or not \<open>delete\<close> raises.\<close>

definition cache_delete :: "'a redis_calls \<Rightarrow> string \<Rightarrow> 'a simple_cache \<Rightarrow> 'a simple_cache" where
  "cache_delete redis key c = cache_pop key c"

text \<open>
  The wrapper of the \<open>cached\<close> decorator (lines 114-135) for one call: \<open>key\<close> is the
  cache key of the call, \<open>func_result\<close> what \<open>await func(*args, **kwargs)\<close> gives,
  \<open>t_get\<close> and \<open>t_set\<close> the clock at the read and at the write.  The result: the
  value returned, the cache afterwards, and whether \<open>func\<close> was executed.
\<close>

definition cached_wrapper ::
  "'a redis_calls \<Rightarrow> real \<Rightarrow> real \<Rightarrow> string \<Rightarrow> real \<Rightarrow> 'a pyval \<Rightarrow> 'a simple_cache
     \<Rightarrow> 'a pyval \<times> 'a simple_cache \<times> bool" where
  "cached_wrapper redis t_get t_set key ttl func_result c =
     (case cache_get redis t_get key c of
        (result, c1) \<Rightarrow>
          if result \<noteq> PyNone \<and> \<not> is_awaitable result then (result, c1, False)
          else (let c2 = (if result \<noteq> PyNone then cache_delete redis key c1 else c1);
                    c3 = (if \<not> is_awaitable func_result
                          then cache_set redis t_set key func_result ttl c2 else c2)
                in (func_result, c3, True)))"

text \<open>
  \<open>get_user_by_api_key\<close> (auth.py, lines 38-95).  A cached user is the dictionary of
  fourteen columns; \<open>User(...)\<close> is rebuilt from it, and \<open>TypeError\<close>, \<open>KeyError\<close>
  or \<open>ValueError\<close> (a value that is no dictionary, a missing key, a \<open>created_at\<close>
  that does not parse) give \<open>None\<close>.
\<close>

definition user_columns :: "string list" where
  "user_columns =
     [''id'', ''username'', ''email'', ''hashed_password'', ''discord_id'', ''discord_name'',
      ''is_active'', ''is_admin'', ''daily_quota'', ''bonus_quota'', ''quota_flash'',
      ''quota_25pro'', ''quota_30pro'']"

record user =
  columns :: "(string \<times> json) list"
  created_at :: datetime

definition user_from_dict :: "(string \<Rightarrow> datetime option) \<Rightarrow> json \<Rightarrow> user option" where
  "user_from_dict fromisoformat cached =
     (case cached of
        JObj kv \<Rightarrow>
          if list_all (\<lambda>k. map_of kv k \<noteq> None) user_columns then
            (case map_of kv ''created_at'' of
               Some (JStr s) \<Rightarrow>
                 (case fromisoformat s of
                    None \<Rightarrow> None
                  | Some t \<Rightarrow>
                      Some \<lparr>columns = map (\<lambda>k. (k, case map_of kv k of
                                                        None \<Rightarrow> JNull | Some v \<Rightarrow> v))
                                           user_columns,
                            created_at = t\<rparr>)
             | _ \<Rightarrow> None)
          else None
      | _ \<Rightarrow> None)"

definition user_to_dict :: "(datetime \<Rightarrow> string) \<Rightarrow> user \<Rightarrow> json" where
  "user_to_dict isoformat u = JObj (columns u @ [(''created_at'', JStr (isoformat (created_at u)))])"

text \<open>Truthiness of the object read from the cache (\<open>if cached_user_dict:\<close>).\<close>

fun py_truthy :: "json pyval \<Rightarrow> bool" where
  "py_truthy PyNone = False"
| "py_truthy Coroutine = True"
| "py_truthy (Value v) = truthy v"

text \<open>
  Lines 44-72: the user rebuilt from the cache (\<open>Inl\<close>), or the cache with which
  the database path is entered (\<open>Inr\<close>).
\<close>

definition cached_user_lookup ::
  "json redis_calls \<Rightarrow> (string \<Rightarrow> datetime option) \<Rightarrow> string \<Rightarrow> json pyval
     \<Rightarrow> json simple_cache \<Rightarrow> user + json simple_cache" where
  "cached_user_lookup redis fromisoformat cache_key cached_user_dict c1 =
     (if py_truthy cached_user_dict then
        (if is_awaitable cached_user_dict then Inr (cache_delete redis cache_key c1)
         else (case cached_user_dict of
                 Value d \<Rightarrow>
                   (case user_from_dict fromisoformat d of
                      Some u \<Rightarrow> Inl u
                    | None \<Rightarrow> Inr (cache_delete redis cache_key c1))
               | _ \<Rightarrow> Inr c1))
      else Inr c1)"

text \<open>
  \<open>db_user\<close> is what the two queries give: the user of the active key, or \<open>None\<close>.
  The result: the user returned, the cache afterwards, and whether the database was
  queried.
\<close>

definition get_user_by_api_key ::
  "json redis_calls \<Rightarrow> (string \<Rightarrow> datetime option) \<Rightarrow> (datetime \<Rightarrow> string) \<Rightarrow> real \<Rightarrow> real
     \<Rightarrow> string \<Rightarrow> user option \<Rightarrow> json simple_cache
     \<Rightarrow> user option \<times> json simple_cache \<times> bool" where
  "get_user_by_api_key redis fromisoformat isoformat t_get t_set key db_user c =
     (let cache_key = ''user::api_key:'' @ key
      in (case cache_get redis t_get cache_key c of
            (cached_user_dict, c1) \<Rightarrow>
              (case cached_user_lookup redis fromisoformat cache_key cached_user_dict c1 of
                 Inl u \<Rightarrow> (Some u, c1, False)
               | Inr c2 \<Rightarrow>
                   (case db_user of
                      None \<Rightarrow> (None, c2, True)
                    | Some u \<Rightarrow>
                        (Some u,
                         cache_set redis t_set cache_key (Value (user_to_dict isoformat u)) 3600 c2,
                         True)))))"

section \<open>Example values\<close>

definition example_settings :: settings where
  "example_settings =
     \<lparr>google_client_id = ''global-client-id'', google_client_secret = ''global-secret'',
      force_donate = False, quota_flash = 100, quota_25pro = 50, quota_30pro = 20\<rparr>"

definition example_cred :: "nat \<Rightarrow> nat \<Rightarrow> string \<Rightarrow> bool \<Rightarrow> bool \<Rightarrow> credential" where
  "example_cred i u mail pub act =
     \<lparr>cred_id = i, user_id = u, name = ''Antigravity - '' @ mail, email = Some mail,
      api_key = Some ''enc:token'', refresh_token = Some (''enc:rt-'' @ mail),
      client_id = Some ''enc:own-client-id'', client_secret = Some ''enc:own-secret'',
      project_id = Some ''proj-1'', credential_type = ''oauth'', is_public = pub,
      is_active = act, last_error = None, api_type = ''antigravity'',
      model_tier = ''2.5''\<rparr>"

definition example_db :: database where
  "example_db =
     \<lparr>credentials = [example_cred 1 1 ''a@example.com'' False False,
                     example_cred 2 1 ''b@example.com'' True True,
                     example_cred 3 2 ''c@example.com'' False False],
      usage_logs = [\<lparr>log_id = 10, credential_id = Some 1\<rparr>,
                    \<lparr>log_id = 11, credential_id = Some 2\<rparr>,
                    \<lparr>log_id = 12, credential_id = None\<rparr>,
                    \<lparr>log_id = 13, credential_id = Some 3\<rparr>]\<rparr>"

definition ex_discovery :: "nat \<Rightarrow> http_reply" where
  "ex_discovery k = Returned (200, Some (JObj [(''allowedTiers'',
      JArr [JObj [(''id'', JStr ''free-tier''), (''isDefault'', JBool True)]])]))"

definition ex_onboard :: "nat \<Rightarrow> http_reply" where
  "ex_onboard k =
     (if k = 0 then Returned (200, Some (JObj [(''done'', JBool False)]))
      else Returned (200, Some (JObj [(''done'', JBool True),
           (''response'',
            JObj [(''cloudaicompanionProject'', JObj [(''id'', JStr ''proj-9'')])])])))"

definition ex_onboard_bare :: "nat \<Rightarrow> http_reply" where
  "ex_onboard_bare k =
     Returned (200, Some (JObj [(''done'', JBool True),
           (''response'', JObj [(''cloudaicompanionProject'', JStr ''proj-7'')])]))"

definition ex_enc :: "string \<Rightarrow> string" where
  "ex_enc s = ''enc:'' @ s"

definition ex_upstream_ok :: upstream where
  "ex_upstream_ok =
     \<lparr>token_reply = Returned (Some ''ya29.token''),
      project_reply = Returned (Some ''proj-1''),
      probe_reply = Returned 200\<rparr>"

definition ex_doc_new :: "(string \<times> string) list" where
  "ex_doc_new = [(''refresh_token'', ''rt-new''), (''email'', ''new@example.com'')]"

definition ex_doc_missing :: "(string \<times> string) list" where
  "ex_doc_missing = [(''email'', ''x@example.com''), (''token'', ''ya29.old'')]"

definition ex_doc_dup :: "(string \<times> string) list" where
  "ex_doc_dup = [(''refresh_token'', ''rt-other''), (''email'', ''b@example.com'')]"

definition ex_callback_401 :: callback where
  "ex_callback_401 =
     \<lparr>code = Some ''4/0AbCdEf'', token_exchange = TokenPair ''ya29.new'' ''1//refresh'',
      userinfo_email = Some ''d@example.com'', resolved_project = Some ''proj-9'',
      random_id = ''0a1b2c3d'', probe_25 = Returned 401, probe_3 = Returned 200,
      data_is_public = True\<rparr>"

definition ex_upstream_no_token :: upstream where
  "ex_upstream_no_token =
     \<lparr>token_reply = Returned None, project_reply = Returned (Some ''proj-1''),
      probe_reply = Returned 200\<rparr>"

definition ex_upstream_token_raises :: upstream where
  "ex_upstream_token_raises =
     \<lparr>token_reply = Raised (asc ''connection reset''),
      project_reply = Returned (Some ''proj-1''), probe_reply = Returned 200\<rparr>"

definition ex_cache :: "nat simple_cache" where
  "ex_cache = \<lparr>memory_cache = Map.empty, memory_expires = Map.empty\<rparr>"

definition ex_user_cache :: "json simple_cache" where
  "ex_user_cache = \<lparr>memory_cache = Map.empty, memory_expires = Map.empty\<rparr>"










text \<open>A stored credential last used at 2025-01-01T00:00:00.\<close>

definition ex_isoformat :: "int \<Rightarrow> string" where
  "ex_isoformat t = (if t = 63871286400000000 then ''2025-01-01T00:00:00'' else [])"

definition ex_listed :: listed_credential where
  "ex_listed =
     \<lparr>cred_id = 1, user_id = 1, name = ''Antigravity - a@example.com'',
      email = Some ''a@example.com'', api_key = Some ''enc:token'',
      refresh_token = Some ''enc:rt-a@example.com'', client_id = None, client_secret = None,
      project_id = Some ''proj-1'', credential_type = ''oauth'', is_public = False,
      is_active = True, last_error = None, api_type = ''antigravity'', model_tier = ''2.5'',
      total_requests = Some 3, failed_requests = None,
      last_used_at = Some 63871286400000000, cred_created_at = None\<rparr>"

section \<open>Properties\<close>

subsection \<open>Binary64 rounding\<close>

lemma bit_length_le: "n < 2 ^ k \<Longrightarrow> bit_length n \<le> k"
proof (induction k arbitrary: n)
  case 0
  then show ?case by (simp add: bit_length.simps)
next
  case (Suc k)
  show ?case
  proof (cases "n = 0")
    case True
    then show ?thesis by (simp add: bit_length.simps)
  next
    case False
    from Suc.prems have "n div 2 < 2 ^ k" by simp
    then have "bit_length (n div 2) \<le> k" by (rule Suc.IH)
    then show ?thesis using False by (subst bit_length.simps) simp
  qed
qed

lemma round_half_even_near: "\<bar>of_int (round_half_even x) - x\<bar> \<le> 1 / 2"
  by (auto simp: round_half_even_def Let_def)

lemma round_half_even_ge: "\<lfloor>x\<rfloor> \<le> round_half_even x"
  by (simp add: round_half_even_def Let_def)

lemma pow2_pos: "0 < pow2 e"
  by (simp add: pow2_def)

lemma pow2_mono: "e \<le> e' \<Longrightarrow> pow2 e \<le> pow2 e'"
proof -
  assume le: "e \<le> e'"
  consider "0 \<le> e" | "e < 0" "0 \<le> e'" | "e' < 0" by linarith
  then show ?thesis
  proof cases
    case 1
    then have "nat e \<le> nat e'" using le by simp
    then have "(2::real) ^ nat e \<le> 2 ^ nat e'" by (intro power_increasing) simp_all
    then show ?thesis using 1 le by (simp add: pow2_def)
  next
    case 2
    have "1 / (2::real) ^ nat (- e) \<le> 1" by simp
    also have "(1::real) \<le> 2 ^ nat e'" by simp
    finally show ?thesis using 2 by (simp add: pow2_def)
  next
    case 3
    then have "nat (- e') \<le> nat (- e)" using le by simp
    then have "(2::real) ^ nat (- e') \<le> 2 ^ nat (- e)" by (intro power_increasing) simp_all
    then have "1 / (2::real) ^ nat (- e) \<le> 1 / 2 ^ nat (- e')"
      by (intro divide_left_mono) simp_all
    then show ?thesis using 3 le by (simp add: pow2_def)
  qed
qed

lemma binade_less:
  assumes "0 < x" and "x < 2 ^ k" and "0 < k"
  shows "binade x \<le> int k - 1"
proof (cases "1 \<le> x")
  case True
  have "\<lfloor>x\<rfloor> < 2 ^ k"
    using assms(2) by (simp add: floor_less_iff)
  then have "nat \<lfloor>x\<rfloor> < 2 ^ k"
    using True by (simp add: nat_less_iff)
  then have "bit_length (nat \<lfloor>x\<rfloor>) \<le> k" by (rule bit_length_le)
  then show ?thesis using True by (simp add: binade_def)
next
  case False
  then show ?thesis using assms(3) by (simp add: binade_def)
qed

lemma double_round_pos:
  "0 < x \<Longrightarrow> double_round x
     = of_int (round_half_even (x / pow2 (max (binade x - 52) (- 1074))))
         * pow2 (max (binade x - 52) (- 1074))"
  by (simp add: double_round_def Let_def)

lemma double_round_minus: "double_round (- x) = - double_round x"
  by (simp add: double_round_def Let_def)

lemma double_round_nonneg: "0 \<le> x \<Longrightarrow> 0 \<le> double_round x"
proof (cases "x = 0")
  case True
  then show ?thesis by (simp add: double_round_def)
next
  case False
  assume "0 \<le> x"
  then have pos: "0 < x" using False by simp
  let ?u = "pow2 (max (binade x - 52) (- 1074))"
  have "0 \<le> x / ?u" using pos pow2_pos [of "max (binade x - 52) (- 1074)"] by simp
  then have "0 \<le> \<lfloor>x / ?u\<rfloor>" by simp
  then have "0 \<le> round_half_even (x / ?u)"
    using round_half_even_ge [of "x / ?u"] by linarith
  then have "0 \<le> of_int (round_half_even (x / ?u)) * ?u"
    using pow2_pos [of "max (binade x - 52) (- 1074)"] by simp
  then show ?thesis by (simp add: double_round_pos [OF pos])
qed

lemma double_round_nonpos: "x \<le> 0 \<Longrightarrow> double_round x \<le> 0"
  using double_round_nonneg [of "- x"] by (simp add: double_round_minus)

lemma double_round_near_pos:
  assumes "0 < x"
  shows "\<bar>double_round x - x\<bar> \<le> pow2 (max (binade x - 52) (- 1074)) / 2"
proof -
  let ?u = "pow2 (max (binade x - 52) (- 1074))"
  let ?m = "round_half_even (x / ?u)"
  have u: "0 < ?u" by (rule pow2_pos)
  have "\<bar>of_int ?m - x / ?u\<bar> \<le> 1 / 2" by (rule round_half_even_near)
  then have "\<bar>of_int ?m - x / ?u\<bar> * ?u \<le> 1 / 2 * ?u"
    using u by (intro mult_right_mono) simp_all
  moreover have "\<bar>of_int ?m - x / ?u\<bar> * ?u = \<bar>of_int ?m * ?u - x\<bar>"
  proof -
    have "\<bar>of_int ?m - x / ?u\<bar> * ?u = \<bar>(of_int ?m - x / ?u) * ?u\<bar>"
      using u by (simp add: abs_mult)
    also have "(of_int ?m - x / ?u) * ?u = of_int ?m * ?u - x"
      using u by (simp add: field_simps)
    finally show ?thesis .
  qed
  ultimately show ?thesis by (simp add: double_round_pos [OF assms])
qed

lemma double_round_near:
  assumes "0 \<le> x" and "x < 2 ^ k" and "0 < k"
  shows "\<bar>double_round x - x\<bar> \<le> pow2 (int k - 53) / 2"
proof (cases "x = 0")
  case True
  then show ?thesis using pow2_pos [of "int k - 53"] by (simp add: double_round_def)
next
  case False
  then have pos: "0 < x" using assms(1) by simp
  have "binade x \<le> int k - 1" using pos assms(2,3) by (rule binade_less)
  then have "max (binade x - 52) (- 1074) \<le> int k - 53" by simp
  then have "pow2 (max (binade x - 52) (- 1074)) \<le> pow2 (int k - 53)" by (rule pow2_mono)
  then show ?thesis using double_round_near_pos [OF pos] by simp
qed

lemma double_round_ge_int:
  assumes "0 < x" and "of_int n \<le> x" and "x < 2 ^ k" and "0 < k" and "k \<le> 53"
  shows "of_int n \<le> double_round x"
proof -
  define e where "e = max (binade x - 52) (- 1074)"
  define u where "u = pow2 e"
  define m where "m = round_half_even (x / u)"
  define p where "p = (2::int) ^ nat (- e)"
  have u: "0 < u" unfolding u_def by (rule pow2_pos)
  have "binade x \<le> int k - 1" using assms(1,3,4) by (rule binade_less)
  then have e: "e \<le> 0" using assms(5) by (simp add: e_def)
  have inv: "of_int p * u = 1"
  proof (cases "e = 0")
    case True
    then show ?thesis by (simp add: pow2_def u_def p_def)
  next
    case False
    then have "e < 0" using e by linarith
    then show ?thesis by (simp add: pow2_def u_def p_def)
  qed
  then have inv': "x / u = x * of_int p"
    using u by (simp add: field_simps)
  have "of_int n * real_of_int p \<le> x * of_int p"
    using assms(2) by (intro mult_right_mono) (simp_all add: p_def)
  then have "real_of_int (n * p) \<le> x / u"
    by (simp add: inv')
  then have "n * p \<le> \<lfloor>x / u\<rfloor>"
    by (simp only: le_floor_iff)
  then have "n * p \<le> m"
    using round_half_even_ge [of "x / u"] unfolding m_def by linarith
  then have "real_of_int (n * p) \<le> of_int m"
    by (simp only: of_int_le_iff)
  then have "real_of_int (n * p) * u \<le> of_int m * u"
    using u by (intro mult_right_mono) simp_all
  moreover have "real_of_int (n * p) * u = of_int n"
  proof -
    have "real_of_int (n * p) * u = of_int n * (of_int p * u)"
      by simp
    then show ?thesis by (simp only: inv mult_1_right)
  qed
  ultimately have "of_int n \<le> of_int m * u" by (simp only:)
  then show ?thesis
    by (simp add: double_round_pos [OF assms(1)] m_def u_def e_def)
qed

subsection \<open>Cooldown\<close>

lemma total_seconds_floor:
  assumes "0 \<le> us" and "us < 2 ^ 34 * 1000000"
  shows "\<lfloor>total_seconds us\<rfloor> = us div 1000000"
proof (cases "us = 0")
  case True
  then show ?thesis by (simp add: total_seconds_def double_round_def)
next
  case False
  let ?x = "real_of_int us / 1000000"
  let ?k = "us div 1000000"
  have pos: "0 < ?x" using assms(1) False by simp
  have split: "us = ?k * 1000000 + us mod 1000000" by simp
  have modb: "0 \<le> us mod 1000000" "us mod 1000000 \<le> 999999"
    using pos_mod_bound [of 1000000 us] by simp_all
  have lo: "of_int ?k \<le> ?x"
  proof -
    have "?k * 1000000 \<le> us" using split modb(1) by linarith
    then have "real_of_int (?k * 1000000) \<le> real_of_int us" by (simp only: of_int_le_iff)
    then show ?thesis by simp
  qed
  have hi: "?x \<le> of_int ?k + 1 - 1 / 1000000"
  proof -
    have "us \<le> ?k * 1000000 + 999999" using split modb(2) by linarith
    then have "real_of_int us \<le> real_of_int (?k * 1000000 + 999999)"
      by (simp only: of_int_le_iff)
    then show ?thesis by (simp add: field_simps)
  qed
  have lt: "?x < 2 ^ 34"
  proof -
    have "real_of_int us < real_of_int (2 ^ 34 * 1000000)"
      using assms(2) by (simp only: of_int_less_iff)
    then show ?thesis by simp
  qed
  have near: "\<bar>double_round ?x - ?x\<bar> \<le> pow2 (int 34 - 53) / 2"
    using pos lt by (intro double_round_near) simp_all
  have p: "pow2 (int 34 - 53) / 2 = 1 / 1048576"
    by (simp add: pow2_def)
  have ge: "of_int ?k \<le> double_round ?x"
    using pos lo lt by (intro double_round_ge_int [where k = 34]) simp_all
  have "double_round ?x \<le> ?x + 1 / 1048576"
    using near p by linarith
  then have "double_round ?x < of_int ?k + 1"
    using hi by linarith
  then have "\<lfloor>double_round ?x\<rfloor> = ?k"
    using ge by (intro floor_unique) simp_all
  then show ?thesis by (simp add: total_seconds_def)
qed

lemma cd_remaining_in_range:
  assumes "us < 2 ^ 34 * 1000000"
  shows "max 0 (py_int (total_seconds us)) = \<lfloor>max 0 (real_of_int us / 1000000)\<rfloor>"
proof (cases "0 \<le> us")
  case True
  then have nn: "0 \<le> total_seconds us"
    by (simp add: total_seconds_def double_round_nonneg)
  have "py_int (total_seconds us) = us div 1000000"
    using nn total_seconds_floor [OF True assms] by (simp add: py_int_def)
  moreover have "0 \<le> us div 1000000"
    using True by (simp add: pos_imp_zdiv_nonneg_iff)
  moreover have "\<lfloor>real_of_int us / 1000000\<rfloor> = us div 1000000"
    using floor_divide_of_int_eq [of us 1000000, where ?'a = real] by simp
  moreover have "max 0 (real_of_int us / 1000000) = real_of_int us / 1000000"
    using True by simp
  ultimately show ?thesis by simp
next
  case False
  then have neg: "real_of_int us / 1000000 \<le> 0" by simp
  then have np: "total_seconds us \<le> 0"
    by (simp add: total_seconds_def double_round_nonpos)
  have "py_int (total_seconds us) \<le> 0"
  proof (cases "total_seconds us = 0")
    case True
    then show ?thesis by (simp add: py_int_def)
  next
    case False
    then have "total_seconds us < 0" using np by simp
    then show ?thesis using np by (simp add: py_int_def ceiling_le_iff)
  qed
  moreover have "max 0 (real_of_int us / 1000000) = 0" using neg by simp
  ultimately show ?thesis by simp
qed


lemma total_seconds_floor_wide:
  assumes "0 \<le> us" and "us < 2 ^ 39 * 1000000"
  shows "us div 1000000 \<le> \<lfloor>total_seconds us\<rfloor>"
    and "\<lfloor>total_seconds us\<rfloor> \<le> us div 1000000 + 1"
proof -
  let ?x = "real_of_int us / 1000000"
  let ?k = "us div 1000000"
  have both: "?k \<le> \<lfloor>total_seconds us\<rfloor> \<and> \<lfloor>total_seconds us\<rfloor> \<le> ?k + 1"
  proof (cases "us = 0")
    case True
    then show ?thesis by (simp add: total_seconds_def double_round_def)
  next
    case False
    have pos: "0 < ?x" using assms(1) False by simp
    have split: "us = ?k * 1000000 + us mod 1000000" by simp
    have modb: "0 \<le> us mod 1000000" "us mod 1000000 \<le> 999999"
      using pos_mod_bound [of 1000000 us] by simp_all
    have lo: "of_int ?k \<le> ?x"
    proof -
      have "?k * 1000000 \<le> us" using split modb(1) by linarith
      then have "real_of_int (?k * 1000000) \<le> real_of_int us" by (simp only: of_int_le_iff)
      then show ?thesis by simp
    qed
    have hi: "?x \<le> of_int ?k + 1 - 1 / 1000000"
    proof -
      have "us \<le> ?k * 1000000 + 999999" using split modb(2) by linarith
      then have "real_of_int us \<le> real_of_int (?k * 1000000 + 999999)"
        by (simp only: of_int_le_iff)
      then show ?thesis by (simp add: field_simps)
    qed
    have lt: "?x < 2 ^ 39"
    proof -
      have "real_of_int us < real_of_int (2 ^ 39 * 1000000)"
        using assms(2) by (simp only: of_int_less_iff)
      then show ?thesis by simp
    qed
    have near: "\<bar>double_round ?x - ?x\<bar> \<le> pow2 (int 39 - 53) / 2"
      using pos lt by (intro double_round_near) simp_all
    have p: "pow2 (int 39 - 53) / 2 = 1 / 32768"
      by (simp add: pow2_def)
    have ge: "of_int ?k \<le> double_round ?x"
      using pos lo lt by (intro double_round_ge_int [where k = 39]) simp_all
    have "double_round ?x \<le> ?x + 1 / 32768"
      using near p by linarith
    then have "double_round ?x < of_int (?k + 1) + 1"
      using hi by simp
    then have "\<lfloor>double_round ?x\<rfloor> \<le> ?k + 1"
      by (simp only: floor_le_iff)
    moreover have "?k \<le> \<lfloor>double_round ?x\<rfloor>"
      using ge by (simp only: le_floor_iff)
    ultimately show ?thesis by (simp add: total_seconds_def)
  qed
  from both show "?k \<le> \<lfloor>total_seconds us\<rfloor>" by simp
  from both show "\<lfloor>total_seconds us\<rfloor> \<le> ?k + 1" by simp
qed

lemma cd_remaining_wide:
  assumes "us < 2 ^ 39 * 1000000"
  shows "\<lfloor>max 0 (real_of_int us / 1000000)\<rfloor> \<le> max 0 (py_int (total_seconds us))"
    and "max 0 (py_int (total_seconds us)) \<le> \<lfloor>max 0 (real_of_int us / 1000000)\<rfloor> + 1"
proof -
  have both: "\<lfloor>max 0 (real_of_int us / 1000000)\<rfloor> \<le> max 0 (py_int (total_seconds us))
      \<and> max 0 (py_int (total_seconds us)) \<le> \<lfloor>max 0 (real_of_int us / 1000000)\<rfloor> + 1"
  proof (cases "0 \<le> us")
    case True
    then have nn: "0 \<le> total_seconds us"
      by (simp add: total_seconds_def double_round_nonneg)
    have fl: "\<lfloor>real_of_int us / 1000000\<rfloor> = us div 1000000"
      using floor_divide_of_int_eq [of us 1000000, where ?'a = real] by simp
    have k: "0 \<le> us div 1000000"
      using True by (simp add: pos_imp_zdiv_nonneg_iff)
    have m: "max 0 (real_of_int us / 1000000) = real_of_int us / 1000000"
      using True by simp
    have "py_int (total_seconds us) = \<lfloor>total_seconds us\<rfloor>"
      using nn by (simp add: py_int_def)
    then show ?thesis
      using total_seconds_floor_wide [OF True assms] k by (simp add: m fl)
  next
    case False
    then have "us < 2 ^ 34 * 1000000" by simp
    then show ?thesis using cd_remaining_in_range [of us] by simp
  qed
  from both show "\<lfloor>max 0 (real_of_int us / 1000000)\<rfloor> \<le> max 0 (py_int (total_seconds us))"
    by simp
  from both show "max 0 (py_int (total_seconds us)) \<le> \<lfloor>max 0 (real_of_int us / 1000000)\<rfloor> + 1"
    by simp
qed

lemma get_cd_remaining_returns:
  assumes "0 < cd" and "0 \<le> lu" and "lu + cd * 1000000 < datetime_end"
  shows "get_cd_remaining now (Some lu) cd
           = Inr (max 0 (py_int (total_seconds (lu + cd * 1000000 - now))))"
proof -
  have "cd * 1000000 < 3652059 * 86400000000"
    using assms(2,3) by (simp add: datetime_end_def)
  then have "cd < 3652059 * 86400" by simp
  then have "cd div 86400 < 3652059" by (simp add: zdiv_int div_less_iff_less_mult)
  then have "\<not> timedelta_max_days < cd div 86400"
    by (simp add: timedelta_max_days_def)
  moreover have "0 \<le> lu + cd * 1000000" using assms(1,2) by simp
  ultimately show ?thesis
    using assms by (simp add: get_cd_remaining_def Let_def)
qed

lemma get_cd_remaining_overflow:
  assumes "0 < cd" and "datetime_end \<le> lu + cd * 1000000"
  shows "get_cd_remaining now (Some lu) cd = Inl OverflowError"
  using assms by (simp add: get_cd_remaining_def Let_def)

lemma get_cd_remaining_nonneg:
  "get_cd_remaining now last_used cd = Inr r \<Longrightarrow> 0 \<le> r"
  by (auto simp: get_cd_remaining_def Let_def split: option.splits if_splits)

lemma list_entry_cd:
  "row \<in> set (list_my_antigravity_credentials isoformat uid table)
     \<Longrightarrow> cd_flash row = 0 \<and> cd_pro row = 0 \<and> cd_30 row = 0"
  by (auto simp: list_my_antigravity_credentials_def list_entry_def Let_def)


text \<open>
  Claim C5, amended.  The list reports the three cooldowns of every credential as
  \<open>0\<close>, the value the formula has when no cooldown is configured; it does not call
  the helper.  The helper, for a last use \<open>lu\<close> that is set and a cooldown of
  \<open>cd > 0\<close> seconds whose end is a \<open>datetime\<close>, returns
  \<open>max(0, lu + cd - now)\<close> rounded down whenever less than \<open>2^34\<close> seconds remain;
  for any \<open>now\<close> it returns that value or one more.  With a cooldown end past
  \<open>datetime.max\<close> it raises \<open>OverflowError\<close>.  It returns \<open>0\<close> when the
  cooldown is not positive or the last use is unset, never a negative number, and
  \<open>0\<close> at \<open>lu + cd\<close>.
\<close>

theorem C5_cd_remaining:
  "(\<forall>row \<in> set (list_my_antigravity_credentials isoformat uid table).
        cd_flash row = 0 \<and> cd_pro row = 0 \<and> cd_30 row = 0)
   \<and> (0 < cd \<and> 0 \<le> lu \<and> lu + cd * 1000000 < datetime_end
        \<and> lu + cd * 1000000 - now < 2 ^ 34 * 1000000 \<longrightarrow>
      get_cd_remaining now (Some lu) cd
        = Inr \<lfloor>max 0 (real_of_int (lu + cd * 1000000 - now) / 1000000)\<rfloor>)
   \<and> (0 < cd \<and> 0 \<le> lu \<and> 0 \<le> now \<and> lu + cd * 1000000 < datetime_end \<longrightarrow>
      (\<exists>r. get_cd_remaining now (Some lu) cd = Inr r
           \<and> \<lfloor>max 0 (real_of_int (lu + cd * 1000000 - now) / 1000000)\<rfloor> \<le> r
           \<and> r \<le> \<lfloor>max 0 (real_of_int (lu + cd * 1000000 - now) / 1000000)\<rfloor> + 1))
   \<and> (0 < cd \<and> datetime_end \<le> lu + cd * 1000000 \<longrightarrow>
      get_cd_remaining now (Some lu) cd = Inl OverflowError)
   \<and> (cd \<le> 0 \<longrightarrow> get_cd_remaining now last_used cd = Inr 0)
   \<and> get_cd_remaining now None cd = Inr 0
   \<and> (get_cd_remaining now last_used cd = Inr r \<longrightarrow> 0 \<le> r)
   \<and> (0 < cd \<and> 0 \<le> lu \<and> lu + cd * 1000000 < datetime_end \<longrightarrow>
      get_cd_remaining (lu + cd * 1000000) (Some lu) cd = Inr 0)"
proof -
  have reported: "\<forall>row \<in> set (list_my_antigravity_credentials isoformat uid table).
        cd_flash row = 0 \<and> cd_pro row = 0 \<and> cd_30 row = 0"
    using list_entry_cd by blast
  have formula: "0 < cd \<and> 0 \<le> lu \<and> lu + cd * 1000000 < datetime_end
        \<and> lu + cd * 1000000 - now < 2 ^ 34 * 1000000 \<longrightarrow>
      get_cd_remaining now (Some lu) cd
        = Inr \<lfloor>max 0 (real_of_int (lu + cd * 1000000 - now) / 1000000)\<rfloor>"
  proof
    assume h: "0 < cd \<and> 0 \<le> lu \<and> lu + cd * 1000000 < datetime_end
        \<and> lu + cd * 1000000 - now < 2 ^ 34 * 1000000"
    then have "get_cd_remaining now (Some lu) cd
           = Inr (max 0 (py_int (total_seconds (lu + cd * 1000000 - now))))"
      by (intro get_cd_remaining_returns) simp_all
    moreover have "max 0 (py_int (total_seconds (lu + cd * 1000000 - now)))
        = \<lfloor>max 0 (real_of_int (lu + cd * 1000000 - now) / 1000000)\<rfloor>"
      using h by (intro cd_remaining_in_range) simp
    ultimately show "get_cd_remaining now (Some lu) cd
        = Inr \<lfloor>max 0 (real_of_int (lu + cd * 1000000 - now) / 1000000)\<rfloor>"
      by simp
  qed
  have wide: "0 < cd \<and> 0 \<le> lu \<and> 0 \<le> now \<and> lu + cd * 1000000 < datetime_end \<longrightarrow>
      (\<exists>r. get_cd_remaining now (Some lu) cd = Inr r
           \<and> \<lfloor>max 0 (real_of_int (lu + cd * 1000000 - now) / 1000000)\<rfloor> \<le> r
           \<and> r \<le> \<lfloor>max 0 (real_of_int (lu + cd * 1000000 - now) / 1000000)\<rfloor> + 1)"
  proof
    assume h: "0 < cd \<and> 0 \<le> lu \<and> 0 \<le> now \<and> lu + cd * 1000000 < datetime_end"
    then have ret: "get_cd_remaining now (Some lu) cd
           = Inr (max 0 (py_int (total_seconds (lu + cd * 1000000 - now))))"
      by (intro get_cd_remaining_returns) simp_all
    have "lu + cd * 1000000 - now < datetime_end" using h by simp
    then have small: "lu + cd * 1000000 - now < 2 ^ 39 * 1000000"
      by (simp add: datetime_end_def)
    show "\<exists>r. get_cd_remaining now (Some lu) cd = Inr r
           \<and> \<lfloor>max 0 (real_of_int (lu + cd * 1000000 - now) / 1000000)\<rfloor> \<le> r
           \<and> r \<le> \<lfloor>max 0 (real_of_int (lu + cd * 1000000 - now) / 1000000)\<rfloor> + 1"
      using ret cd_remaining_wide [OF small] by simp
  qed
  have overflow: "0 < cd \<and> datetime_end \<le> lu + cd * 1000000 \<longrightarrow>
      get_cd_remaining now (Some lu) cd = Inl OverflowError"
    using get_cd_remaining_overflow by blast
  have off: "cd \<le> 0 \<longrightarrow> get_cd_remaining now last_used cd = Inr 0"
    by (simp add: get_cd_remaining_def split: option.split)
  have unset: "get_cd_remaining now None cd = Inr 0"
    by (simp add: get_cd_remaining_def)
  have nonneg: "get_cd_remaining now last_used cd = Inr r \<longrightarrow> 0 \<le> r"
    using get_cd_remaining_nonneg by blast
  have at_end: "0 < cd \<and> 0 \<le> lu \<and> lu + cd * 1000000 < datetime_end \<longrightarrow>
      get_cd_remaining (lu + cd * 1000000) (Some lu) cd = Inr 0"
  proof
    assume h: "0 < cd \<and> 0 \<le> lu \<and> lu + cd * 1000000 < datetime_end"
    then have "get_cd_remaining (lu + cd * 1000000) (Some lu) cd
           = Inr (max 0 (py_int (total_seconds (lu + cd * 1000000 - (lu + cd * 1000000)))))"
      by (intro get_cd_remaining_returns) simp_all
    then show "get_cd_remaining (lu + cd * 1000000) (Some lu) cd = Inr 0"
      by (simp add: total_seconds_def double_round_def py_int_def)
  qed
  from reported formula wide overflow off unset nonneg at_end show ?thesis by blast
qed

theorem C5_cd_remaining_witness:
  "map cd_flash (list_my_antigravity_credentials ex_isoformat 1 [ex_listed]) = [0]
   \<and> map cd_pro (list_my_antigravity_credentials ex_isoformat 1 [ex_listed]) = [0]
   \<and> map cd_30 (list_my_antigravity_credentials ex_isoformat 1 [ex_listed]) = [0]
   \<and> get_cd_remaining 63871286410500000 (last_used_at ex_listed) 30 = Inr 19
   \<and> get_cd_remaining 63871286410500000 (last_used_at ex_listed) 0 = Inr 0
   \<and> get_cd_remaining 63871286410500000 None 30 = Inr 0
   \<and> get_cd_remaining 63871286430000000 (last_used_at ex_listed) 30 = Inr 0
   \<and> get_cd_remaining 63871286410500000 (last_used_at ex_listed) 1000000000000
         = Inl OverflowError"
proof -
  let ?lu = "63871286400000000 :: int"
  let ?now = "63871286410500000 :: int"
  note c5 = C5_cd_remaining
      [where isoformat = ex_isoformat and uid = 1 and table = "[ex_listed]"
         and lu = ?lu and now = ?now and last_used = "Some ?lu"]
  have rows: "list_my_antigravity_credentials ex_isoformat 1 [ex_listed]
                = [list_entry ex_isoformat ex_listed]"
    by (simp add: list_my_antigravity_credentials_def ex_listed_def MODE_def)
  have lu: "last_used_at ex_listed = Some ?lu"
    by (simp add: ex_listed_def)
  have reported: "cd_flash (list_entry ex_isoformat ex_listed) = 0
      \<and> cd_pro (list_entry ex_isoformat ex_listed) = 0
      \<and> cd_30 (list_entry ex_isoformat ex_listed) = 0"
    using c5 [where cd = 30 and r = 19, THEN conjunct1] unfolding rows by simp
  have range: "(0::int) < 30 \<and> 0 \<le> ?lu \<and> ?lu + 30 * 1000000 < datetime_end
      \<and> ?lu + 30 * 1000000 - ?now < 2 ^ 34 * 1000000"
    by (simp add: datetime_end_def)
  have running: "get_cd_remaining ?now (Some ?lu) 30 = Inr 19"
    using c5 [where cd = 30 and r = 19, THEN conjunct2, THEN conjunct1, THEN mp, OF range]
    by simp
  have off: "get_cd_remaining ?now (Some ?lu) 0 = Inr 0"
    using c5 [where cd = 0 and r = 0] by simp
  have unset: "get_cd_remaining ?now None 30 = Inr 0"
    using c5 [where cd = 30 and r = 0] by simp
  have at_end: "get_cd_remaining 63871286430000000 (Some ?lu) 30 = Inr 0"
    using c5 [where cd = 30 and r = 0] by (simp add: datetime_end_def)
  have overflow: "get_cd_remaining ?now (Some ?lu) 1000000000000 = Inl OverflowError"
    using c5 [where cd = 1000000000000 and r = 0] by (simp add: datetime_end_def)
  show ?thesis
    unfolding rows lu using reported running off unset at_end overflow by simp
qed

text \<open>
  The claim as stated fails.  With a last use at 2025-01-01T00:00:00, a cooldown of
  \<open>2 * 10^10\<close> seconds and \<open>now\<close> one microsecond later, 19999999999.999999
  seconds remain: rounded down that is 19999999999, and the helper returns
  20000000000, the integer part of the \<open>float\<close> that \<open>total_seconds\<close> returns.
  With a cooldown of \<open>10^12\<close> seconds it raises \<open>OverflowError\<close>.  And the list
  reports \<open>0\<close> for a credential last used ten and a half seconds before, where a
  cooldown of 30 seconds would leave 19.
\<close>

lemma bit_length_19999999999: "bit_length 19999999999 = 35"
  by (simp add: bit_length.simps)

lemma total_seconds_19999999999999999: "total_seconds 19999999999999999 = 20000000000"
proof -
  have b: "binade (19999999999999999 / 1000000) = 34"
    by (simp add: binade_def bit_length_19999999999)
  have p: "pow2 (- 18) = 1 / 262144"
    by (simp add: pow2_def)
  show ?thesis
    by (simp add: total_seconds_def double_round_def b p round_half_even_def Let_def)
qed

theorem C5_cd_remaining_counterexample:
  "get_cd_remaining 63871286400000001 (Some 63871286400000000) 20000000000
     = Inr 20000000000
   \<and> \<lfloor>max 0 (real_of_int (63871286400000000 + 20000000000 * 1000000 - 63871286400000001)
                / 1000000)\<rfloor> = (19999999999 :: int)
   \<and> get_cd_remaining 63871286400000001 (Some 63871286400000000) 1000000000000
       = Inl OverflowError
   \<and> map cd_flash (list_my_antigravity_credentials ex_isoformat 1 [ex_listed]) = [0]
   \<and> last_used_at ex_listed = Some 63871286400000000
   \<and> \<lfloor>max 0 (real_of_int (63871286400000000 + 30 * 1000000 - 63871286410500000)
                / 1000000)\<rfloor> = (19 :: int)"
proof -
  have a: "get_cd_remaining 63871286400000001 (Some 63871286400000000) 20000000000
             = Inr 20000000000"
    by (simp add: get_cd_remaining_def timedelta_max_days_def datetime_end_def Let_def
          total_seconds_19999999999999999 py_int_def)
  have b: "\<lfloor>max 0 (real_of_int (63871286400000000 + 20000000000 * 1000000
                                   - 63871286400000001) / 1000000)\<rfloor> = (19999999999 :: int)"
    by simp
  have c: "get_cd_remaining 63871286400000001 (Some 63871286400000000) 1000000000000
             = Inl OverflowError"
    by (simp add: get_cd_remaining_def timedelta_max_days_def datetime_end_def Let_def)
  have d: "map cd_flash (list_my_antigravity_credentials ex_isoformat 1 [ex_listed]) = [0]"
    by (simp add: list_my_antigravity_credentials_def list_entry_def ex_listed_def MODE_def)
  have e: "last_used_at ex_listed = Some 63871286400000000"
    by (simp add: ex_listed_def)
  have f: "\<lfloor>max 0 (real_of_int (63871286400000000 + 30 * 1000000 - 63871286410500000)
                      / 1000000)\<rfloor> = (19 :: int)"
    by simp
  from a b c d e f show ?thesis by blast
qed

subsection \<open>Probe classification\<close>

lemma auth_msg_401:
  "has_auth_error (Some (msg_auth_failed @ asc '' ('' @ asc (str_nat 401) @ asc '')''))"
  by (simp add: has_auth_error_def msg_auth_failed_def asc_def str_nat.simps)

lemma auth_msg_403:
  "has_auth_error (Some (msg_auth_failed @ asc '' ('' @ asc (str_nat 403) @ asc '')''))"
  by (simp add: has_auth_error_def msg_auth_failed_def asc_def str_nat.simps)

text \<open>
  Claim C2.  The verdict of a probe is a function of its outcome alone: status 200 or
  429 is valid, with no error; 401 or 403 is invalid with the authentication message
  (which the donation gate recognises as an authentication failure); every other status
  is invalid with the generic message that ends in the status code; an exception is
  invalid with the request-exception message, whose length is at most 36 code points.
  The batch probe \<open>verify_single_probe\<close> gives the same validity bit.
\<close>

theorem C2_probe_classification:
  "(status = 200 \<or> status = 429 \<longrightarrow>
      classify_probe (Returned status) = (True, None)
      \<and> verify_single_probe (Returned status))
   \<and> (status = 401 \<or> status = 403 \<longrightarrow>
      classify_probe (Returned status)
        = (False, Some (msg_auth_failed @ asc '' ('' @ asc (str_nat status) @ asc '')''))
      \<and> has_auth_error (snd (classify_probe (Returned status)))
      \<and> \<not> verify_single_probe (Returned status))
   \<and> (status \<noteq> 200 \<and> status \<noteq> 429 \<and> status \<noteq> 401 \<and> status \<noteq> 403 \<longrightarrow>
      classify_probe (Returned status)
        = (False, Some (msg_api_returned @ asc (str_nat status)))
      \<and> \<not> verify_single_probe (Returned status))
   \<and> classify_probe (Raised e) = (False, Some (msg_request_exception @ take 30 e))
   \<and> length (msg_request_exception @ take 30 e) \<le> 36
   \<and> \<not> verify_single_probe (Raised e)"
proof -
  have valid: "status = 200 \<or> status = 429 \<longrightarrow>
      classify_probe (Returned status) = (True, None)
      \<and> verify_single_probe (Returned status)"
    by (auto simp: classify_probe_def verify_single_probe_def)
  have auth: "status = 401 \<or> status = 403 \<longrightarrow>
      classify_probe (Returned status)
        = (False, Some (msg_auth_failed @ asc '' ('' @ asc (str_nat status) @ asc '')''))
      \<and> has_auth_error (snd (classify_probe (Returned status)))
      \<and> \<not> verify_single_probe (Returned status)"
    using auth_msg_401 auth_msg_403
    by (auto simp: classify_probe_def verify_single_probe_def)
  have other: "status \<noteq> 200 \<and> status \<noteq> 429 \<and> status \<noteq> 401 \<and> status \<noteq> 403 \<longrightarrow>
      classify_probe (Returned status)
        = (False, Some (msg_api_returned @ asc (str_nat status)))
      \<and> \<not> verify_single_probe (Returned status)"
    by (simp add: classify_probe_def verify_single_probe_def)
  have exc: "classify_probe (Raised e) = (False, Some (msg_request_exception @ take 30 e))"
    by (simp add: classify_probe_def)
  have bound: "length (msg_request_exception @ take 30 e) \<le> 36"
    by (simp add: msg_request_exception_def asc_def)
  have batch: "\<not> verify_single_probe (Raised e)"
    by (simp add: verify_single_probe_def)
  from valid auth other exc bound batch show ?thesis by blast
qed

theorem C2_probe_classification_witness:
  "classify_probe (Returned 200) = (True, None)
   \<and> classify_probe (Returned 429) = (True, None)
   \<and> classify_probe (Returned 403)
       = (False, Some ([0x8BA4, 0x8BC1, 0x5931, 0x8D25, 32, 40, 52, 48, 51, 41]))
   \<and> classify_probe (Returned 500)
       = (False, Some ([65, 80, 73, 32, 0x8FD4, 0x56DE, 32, 53, 48, 48]))
   \<and> classify_probe (Raised (asc ''timed out''))
       = (False, Some ([0x8BF7, 0x6C42, 0x5F02, 0x5E38, 58, 32] @ asc ''timed out''))"
  using C2_probe_classification [of 200 "asc ''timed out''"]
        C2_probe_classification [of 429 "asc ''timed out''"]
        C2_probe_classification [of 403 "asc ''timed out''"]
        C2_probe_classification [of 500 "asc ''timed out''"]
  by (simp add: msg_auth_failed_def msg_api_returned_def msg_request_exception_def
        asc_def str_nat.simps)

subsection \<open>Export\<close>

lemma scalar_one_or_none_Some:
  "scalar_one_or_none xs = Inr (Some x) \<Longrightarrow> xs = [x]"
  by (cases xs rule: scalar_one_or_none.cases) auto

lemma filter_drop_overrides:
  "filter (\<lambda>c. cred_id c = cid \<and> user_id c = uid \<and> api_type c = MODE)
          (map (\<lambda>c. c\<lparr>client_id := f c, client_secret := g c\<rparr>) db)
   = map (\<lambda>c. c\<lparr>client_id := f c, client_secret := g c\<rparr>)
         (filter (\<lambda>c. cred_id c = cid \<and> user_id c = uid \<and> api_type c = MODE) db)"
  by (induction db) auto

lemma export_cred_data_overrides:
  "export_cred_data st dec (c\<lparr>client_id := x, client_secret := y\<rparr>) = export_cred_data st dec c"
  by (simp add: export_cred_data_def)

lemma export_bulk_overrides:
  "export_bulk_data st dec (c\<lparr>client_id := x, client_secret := y\<rparr>) = export_bulk_data st dec c"
  "export_filename (c\<lparr>client_id := x, client_secret := y\<rparr>) = export_filename c"
  by (simp_all add: export_bulk_data_def export_filename_def)

lemma export_my_overrides:
  "export_my_antigravity_credential st dec cid uid
       (map (\<lambda>c. c\<lparr>client_id := f c, client_secret := g c\<rparr>) db)
   = export_my_antigravity_credential st dec cid uid db"
proof -
  let ?P = "\<lambda>c. cred_id c = cid \<and> user_id c = uid \<and> api_type c = MODE"
  let ?h = "\<lambda>c. c\<lparr>client_id := f c, client_secret := g c\<rparr>"
  show ?thesis
  proof (cases "filter ?P db" rule: scalar_one_or_none.cases)
    case 1
    then show ?thesis
      by (simp add: export_my_antigravity_credential_def filter_drop_overrides)
  next
    case (2 x)
    then show ?thesis
      by (simp add: export_my_antigravity_credential_def filter_drop_overrides
            export_cred_data_overrides)
  next
    case (3 x y zs)
    then show ?thesis
      by (simp add: export_my_antigravity_credential_def filter_drop_overrides)
  qed
qed

lemma export_all_overrides:
  "export_antigravity_credentials st dec
       (map (\<lambda>c. c\<lparr>client_id := f c, client_secret := g c\<rparr>) db)
   = export_antigravity_credentials st dec db"
  by (induction db) (auto simp: export_antigravity_credentials_def export_bulk_overrides)

text \<open>
  Claim C10.  The single export and the admin bulk export put the globally configured
  \<open>client_id\<close> and \<open>client_secret\<close> into the exported object, whatever overrides the
  credential stores (changing every credential's stored overrides changes no export);
  \<open>refresh_token\<close>, \<open>token\<close>, \<open>project_id\<close> and \<open>email\<close> are those of the credential.
\<close>

theorem C10_export_uses_global_client:
  "(export_my_antigravity_credential st dec cid uid db = Inr d \<longrightarrow>
      map_of d ''client_id'' = Some (google_client_id st)
      \<and> map_of d ''client_secret'' = Some (google_client_secret st)
      \<and> (\<exists>cred \<in> set db. cred_id cred = cid
            \<and> map_of d ''refresh_token'' = Some (decrypt_or_empty dec (refresh_token cred))
            \<and> map_of d ''token'' = Some (decrypt_or_empty dec (api_key cred))
            \<and> map_of d ''project_id'' = Some (or_empty (project_id cred))
            \<and> map_of d ''email'' = Some (or_empty (email cred))))
   \<and> export_my_antigravity_credential st dec cid uid
        (map (\<lambda>c. c\<lparr>client_id := f c, client_secret := g c\<rparr>) db)
      = export_my_antigravity_credential st dec cid uid db
   \<and> map snd (export_antigravity_credentials st dec db)
      = map (\<lambda>cred. [(''client_id'', google_client_id st),
                       (''client_secret'', google_client_secret st),
                       (''refresh_token'', decrypt_or_empty dec (refresh_token cred)),
                       (''token'', decrypt_or_empty dec (api_key cred)),
                       (''project_id'', or_empty (project_id cred)),
                       (''email'', or_empty (email cred))])
            (filter (\<lambda>c. api_type c = MODE) db)
   \<and> export_antigravity_credentials st dec
        (map (\<lambda>c. c\<lparr>client_id := f c, client_secret := g c\<rparr>) db)
      = export_antigravity_credentials st dec db"
proof -
  have single: "export_my_antigravity_credential st dec cid uid db = Inr d \<longrightarrow>
      map_of d ''client_id'' = Some (google_client_id st)
      \<and> map_of d ''client_secret'' = Some (google_client_secret st)
      \<and> (\<exists>cred \<in> set db. cred_id cred = cid
            \<and> map_of d ''refresh_token'' = Some (decrypt_or_empty dec (refresh_token cred))
            \<and> map_of d ''token'' = Some (decrypt_or_empty dec (api_key cred))
            \<and> map_of d ''project_id'' = Some (or_empty (project_id cred))
            \<and> map_of d ''email'' = Some (or_empty (email cred)))"
  proof
    assume ok: "export_my_antigravity_credential st dec cid uid db = Inr d"
    let ?P = "\<lambda>c. cred_id c = cid \<and> user_id c = uid \<and> api_type c = MODE"
    from ok obtain cred where found: "scalar_one_or_none (filter ?P db) = Inr (Some cred)"
      and d: "d = export_cred_data st dec cred"
      by (auto simp: export_my_antigravity_credential_def split: sum.splits option.splits)
    from found have "filter ?P db = [cred]" by (rule scalar_one_or_none_Some)
    then have "cred \<in> set (filter ?P db)" by simp
    then have mem: "cred \<in> set db" and cid: "cred_id cred = cid" by auto
    have fields:
      "map_of d ''client_id'' = Some (google_client_id st)"
      "map_of d ''client_secret'' = Some (google_client_secret st)"
      "map_of d ''refresh_token'' = Some (decrypt_or_empty dec (refresh_token cred))"
      "map_of d ''token'' = Some (decrypt_or_empty dec (api_key cred))"
      "map_of d ''project_id'' = Some (or_empty (project_id cred))"
      "map_of d ''email'' = Some (or_empty (email cred))"
      by (simp_all add: d export_cred_data_def)
    with mem cid show "map_of d ''client_id'' = Some (google_client_id st)
      \<and> map_of d ''client_secret'' = Some (google_client_secret st)
      \<and> (\<exists>cred \<in> set db. cred_id cred = cid
            \<and> map_of d ''refresh_token'' = Some (decrypt_or_empty dec (refresh_token cred))
            \<and> map_of d ''token'' = Some (decrypt_or_empty dec (api_key cred))
            \<and> map_of d ''project_id'' = Some (or_empty (project_id cred))
            \<and> map_of d ''email'' = Some (or_empty (email cred)))"
      by blast
  qed
  have bulk: "map snd (export_antigravity_credentials st dec db)
      = map (\<lambda>cred. [(''client_id'', google_client_id st),
                       (''client_secret'', google_client_secret st),
                       (''refresh_token'', decrypt_or_empty dec (refresh_token cred)),
                       (''token'', decrypt_or_empty dec (api_key cred)),
                       (''project_id'', or_empty (project_id cred)),
                       (''email'', or_empty (email cred))])
            (filter (\<lambda>c. api_type c = MODE) db)"
    by (simp add: export_antigravity_credentials_def export_bulk_data_def comp_def)
  have single_frame: "export_my_antigravity_credential st dec cid uid
        (map (\<lambda>c. c\<lparr>client_id := f c, client_secret := g c\<rparr>) db)
      = export_my_antigravity_credential st dec cid uid db"
    by (rule export_my_overrides)
  have bulk_frame: "export_antigravity_credentials st dec
        (map (\<lambda>c. c\<lparr>client_id := f c, client_secret := g c\<rparr>) db)
      = export_antigravity_credentials st dec db"
    by (rule export_all_overrides)
  from single single_frame bulk bulk_frame show ?thesis by blast
qed

theorem C10_export_uses_global_client_witness:
  "export_my_antigravity_credential example_settings (drop 4) 2 1 (credentials example_db)
     = Inr [(''client_id'', ''global-client-id''), (''client_secret'', ''global-secret''),
            (''refresh_token'', ''rt-b@example.com''), (''token'', ''token''),
            (''project_id'', ''proj-1''), (''email'', ''b@example.com''),
            (''type'', ''authorized_user'')]
   \<and> map_of [(''client_id'', ''global-client-id''), (''client_secret'', ''global-secret''),
            (''refresh_token'', ''rt-b@example.com''), (''token'', ''token''),
            (''project_id'', ''proj-1''), (''email'', ''b@example.com''),
            (''type'', ''authorized_user'')] ''client_id''
       = Some (google_client_id example_settings)
   \<and> export_my_antigravity_credential example_settings (drop 4) 2 1
        (map (\<lambda>c. c\<lparr>client_id := None, client_secret := None\<rparr>) (credentials example_db))
     = export_my_antigravity_credential example_settings (drop 4) 2 1 (credentials example_db)"
proof -
  have run: "export_my_antigravity_credential example_settings (drop 4) 2 1
        (credentials example_db)
     = Inr [(''client_id'', ''global-client-id''), (''client_secret'', ''global-secret''),
            (''refresh_token'', ''rt-b@example.com''), (''token'', ''token''),
            (''project_id'', ''proj-1''), (''email'', ''b@example.com''),
            (''type'', ''authorized_user'')]"
    by (simp add: export_my_antigravity_credential_def export_cred_data_def
          decrypt_or_empty_def example_db_def example_cred_def example_settings_def MODE_def)
  from run C10_export_uses_global_client
         [where st = example_settings and dec = "drop 4" and cid = 2 and uid = 1
            and db = "credentials example_db" and f = "\<lambda>c. None" and g = "\<lambda>c. None"
            and d = "[(''client_id'', ''global-client-id''),
              (''client_secret'', ''global-secret''),
              (''refresh_token'', ''rt-b@example.com''), (''token'', ''token''),
              (''project_id'', ''proj-1''), (''email'', ''b@example.com''),
              (''type'', ''authorized_user'')]"]
  show ?thesis by (simp add: example_settings_def)
qed

subsection \<open>Deletion\<close>

lemma null_usage_refs_credentials [simp]:
  "credentials (null_usage_refs ids db) = credentials db"
  by (simp add: null_usage_refs_def)

lemma null_usage_refs_log_ids:
  "map log_id (usage_logs (null_usage_refs ids db)) = map log_id (usage_logs db)"
  by (simp add: null_usage_refs_def comp_def split: option.split)

lemma null_usage_refs_refs:
  "map credential_id (usage_logs (null_usage_refs ids db))
     = map (nulled_ref ids \<circ> credential_id) (usage_logs db)"
  by (auto simp: null_usage_refs_def nulled_ref_def split: option.split)

lemma null_usage_refs_unreferenced:
  "l \<in> set (usage_logs (null_usage_refs ids db)) \<Longrightarrow> credential_id l = Some i \<Longrightarrow> i \<notin> set ids"
  by (auto simp: null_usage_refs_def split: option.splits if_splits)

lemma db_delete_usage_logs [simp]:
  "usage_logs (db_delete cred db) = usage_logs db"
  by (simp add: db_delete_def)

lemma db_delete_credentials:
  "credentials (db_delete cred db) = filter (\<lambda>c. cred_id c \<noteq> cred_id cred) (credentials db)"
  by (simp add: db_delete_def)

lemma delete_all_usage_logs:
  "usage_logs (fst (delete_all cs (db, n))) = usage_logs db"
  by (induction cs arbitrary: db n) simp_all

lemma delete_all_credentials:
  "credentials (fst (delete_all cs (db, n)))
     = filter (\<lambda>c. cred_id c \<notin> set (map cred_id cs)) (credentials db)"
  by (induction cs arbitrary: db n) (simp_all add: db_delete_credentials conj_commute)

lemma delete_all_count:
  "snd (delete_all cs (db, n)) = n + length cs"
  by (induction cs arbitrary: db n) simp_all

lemma nulled_ref_Nil [simp]: "nulled_ref [] r = r"
  by (simp add: nulled_ref_def split: option.split)

lemma delete_my_effect:
  assumes "delete_my_antigravity_credential cid uid db = Inr db1"
  shows "map log_id (usage_logs db1) = map log_id (usage_logs db)"
    and "map credential_id (usage_logs db1)
           = map (nulled_ref [cid] \<circ> credential_id) (usage_logs db)"
    and "credentials db1 = filter (\<lambda>c. cred_id c \<noteq> cid) (credentials db)"
    and "\<exists>cred. cred \<in> set (credentials db) \<and> cred_id cred = cid
           \<and> db1 = db_delete cred (null_usage_refs [cid] db)"
proof -
  let ?P = "\<lambda>c. cred_id c = cid \<and> user_id c = uid \<and> api_type c = MODE"
  from assms obtain cred where
    found: "scalar_one_or_none (filter ?P (credentials db)) = Inr (Some cred)"
    and db1: "db1 = db_delete cred (null_usage_refs [cid] db)"
    by (auto simp: delete_my_antigravity_credential_def split: sum.splits option.splits)
  from found have "filter ?P (credentials db) = [cred]" by (rule scalar_one_or_none_Some)
  then have "cred \<in> set (filter ?P (credentials db))" by simp
  then have mem: "cred \<in> set (credentials db)" and cid: "cred_id cred = cid" by auto
  show "map log_id (usage_logs db1) = map log_id (usage_logs db)"
    by (simp add: db1 null_usage_refs_log_ids)
  show "map credential_id (usage_logs db1)
           = map (nulled_ref [cid] \<circ> credential_id) (usage_logs db)"
    by (simp add: db1 null_usage_refs_refs)
  show "credentials db1 = filter (\<lambda>c. cred_id c \<noteq> cid) (credentials db)"
    by (simp add: db1 db_delete_credentials cid)
  from mem cid db1
  show "\<exists>cred. cred \<in> set (credentials db) \<and> cred_id cred = cid
           \<and> db1 = db_delete cred (null_usage_refs [cid] db)"
    by blast
qed

lemma delete_my_inactive_effect:
  assumes "delete_my_inactive_antigravity_credentials uid db = (db2, n)"
    and "ids = map cred_id
                 (filter (\<lambda>c. user_id c = uid \<and> api_type c = MODE \<and> is_active c = False)
                         (credentials db))"
  shows "map log_id (usage_logs db2) = map log_id (usage_logs db)"
    and "map credential_id (usage_logs db2)
           = map (nulled_ref ids \<circ> credential_id) (usage_logs db)"
    and "credentials db2 = filter (\<lambda>c. cred_id c \<notin> set ids) (credentials db)"
    and "n = length ids"
proof -
  let ?inactive = "filter (\<lambda>c. user_id c = uid \<and> api_type c = MODE \<and> is_active c = False)
                         (credentials db)"
  show "map log_id (usage_logs db2) = map log_id (usage_logs db)"
  proof (cases "?inactive = []")
    case True
    with assms show ?thesis
      by (simp add: delete_my_inactive_antigravity_credentials_def)
  next
    case False
    with assms have "db2 = fst (delete_all ?inactive (null_usage_refs ids db, 0))"
      by (simp add: delete_my_inactive_antigravity_credentials_def Let_def)
    then show ?thesis
      by (simp add: delete_all_usage_logs null_usage_refs_log_ids)
  qed
  show "map credential_id (usage_logs db2)
           = map (nulled_ref ids \<circ> credential_id) (usage_logs db)"
  proof (cases "?inactive = []")
    case True
    with assms show ?thesis
      by (simp add: delete_my_inactive_antigravity_credentials_def comp_def)
  next
    case False
    with assms have "db2 = fst (delete_all ?inactive (null_usage_refs ids db, 0))"
      by (simp add: delete_my_inactive_antigravity_credentials_def Let_def)
    then show ?thesis
      by (simp add: delete_all_usage_logs null_usage_refs_refs)
  qed
  show "credentials db2 = filter (\<lambda>c. cred_id c \<notin> set ids) (credentials db)"
  proof (cases "?inactive = []")
    case True
    with assms show ?thesis
      by (simp add: delete_my_inactive_antigravity_credentials_def)
  next
    case False
    with assms have "db2 = fst (delete_all ?inactive (null_usage_refs ids db, 0))"
      by (simp add: delete_my_inactive_antigravity_credentials_def Let_def)
    then show ?thesis
      using assms(2) by (simp add: delete_all_credentials)
  qed
  show "n = length ids"
  proof (cases "?inactive = []")
    case True
    with assms show ?thesis
      by (simp add: delete_my_inactive_antigravity_credentials_def)
  next
    case False
    with assms have "n = snd (delete_all ?inactive (null_usage_refs ids db, 0))"
      by (simp add: delete_my_inactive_antigravity_credentials_def Let_def)
    then show ?thesis
      using assms(2) by (simp add: delete_all_count)
  qed
qed

lemma delete_inactive_effect:
  assumes "delete_inactive_antigravity_credentials db = (db3, n)"
    and "ids = map cred_id
                 (filter (\<lambda>c. api_type c = MODE \<and> is_active c = False) (credentials db))"
  shows "map log_id (usage_logs db3) = map log_id (usage_logs db)"
    and "map credential_id (usage_logs db3)
           = map (nulled_ref ids \<circ> credential_id) (usage_logs db)"
    and "credentials db3 = filter (\<lambda>c. cred_id c \<notin> set ids) (credentials db)"
    and "n = length ids"
proof -
  let ?inactive = "filter (\<lambda>c. api_type c = MODE \<and> is_active c = False) (credentials db)"
  have len: "length ids = length ?inactive"
    by (simp add: assms(2))
  have all: "map log_id (usage_logs db3) = map log_id (usage_logs db)
      \<and> map credential_id (usage_logs db3)
           = map (nulled_ref ids \<circ> credential_id) (usage_logs db)
      \<and> credentials db3 = filter (\<lambda>c. cred_id c \<notin> set ids) (credentials db)
      \<and> n = length ids"
  proof (cases "?inactive = []")
    case True
    then have "ids = []" by (simp add: assms(2))
    moreover from True assms(1) have "db3 = db" "n = 0"
      by (simp_all add: delete_inactive_antigravity_credentials_def)
    ultimately show ?thesis by (simp add: comp_def)
  next
    case False
    with assms(1) have "db3 = fst (delete_all ?inactive (null_usage_refs
        (map cred_id ?inactive) db, 0))" and "n = length ?inactive"
      by (simp_all add: delete_inactive_antigravity_credentials_def Let_def)
    then have "db3 = fst (delete_all ?inactive (null_usage_refs ids db, 0))"
      and n: "n = length ids"
      by (simp_all add: assms(2))
    then show ?thesis
      using assms(2)
      by (simp add: delete_all_usage_logs delete_all_credentials null_usage_refs_log_ids
            null_usage_refs_refs)
  qed
  from all show "map log_id (usage_logs db3) = map log_id (usage_logs db)" by simp
  from all show "map credential_id (usage_logs db3)
           = map (nulled_ref ids \<circ> credential_id) (usage_logs db)" by simp
  from all show "credentials db3 = filter (\<lambda>c. cred_id c \<notin> set ids) (credentials db)"
    by simp
  from all show "n = length ids" by simp
qed

text \<open>
  Claim C9.  On the single delete, the user's bulk delete of inactive credentials and
  the admin's delete of inactive credentials, the result is the deletion applied to
  the state in which the references have been nulled: every usage-log record is still
  there (same records, same order), a record that referenced a deleted credential now
  has no reference, the other references are unchanged, and the deleted credentials are
  gone.  In the state the deletions run on, no usage-log record references a credential
  that is about to be deleted, and a deletion never touches the usage logs.
\<close>

theorem C9_usage_logs_nulled_not_deleted:
  "(delete_my_antigravity_credential cid uid db = Inr db1 \<longrightarrow>
      map log_id (usage_logs db1) = map log_id (usage_logs db)
      \<and> map credential_id (usage_logs db1)
           = map (nulled_ref [cid] \<circ> credential_id) (usage_logs db)
      \<and> credentials db1 = filter (\<lambda>c. cred_id c \<noteq> cid) (credentials db)
      \<and> (\<exists>cred. cred \<in> set (credentials db) \<and> cred_id cred = cid
            \<and> db1 = db_delete cred (null_usage_refs [cid] db)))
   \<and> (delete_my_inactive_antigravity_credentials uid db = (db2, n2)
        \<and> ids2 = map cred_id
              (filter (\<lambda>c. user_id c = uid \<and> api_type c = MODE \<and> is_active c = False)
                      (credentials db)) \<longrightarrow>
      map log_id (usage_logs db2) = map log_id (usage_logs db)
      \<and> map credential_id (usage_logs db2)
           = map (nulled_ref ids2 \<circ> credential_id) (usage_logs db)
      \<and> credentials db2 = filter (\<lambda>c. cred_id c \<notin> set ids2) (credentials db)
      \<and> n2 = length ids2)
   \<and> (delete_inactive_antigravity_credentials db = (db3, n3)
        \<and> ids3 = map cred_id
              (filter (\<lambda>c. api_type c = MODE \<and> is_active c = False) (credentials db)) \<longrightarrow>
      map log_id (usage_logs db3) = map log_id (usage_logs db)
      \<and> map credential_id (usage_logs db3)
           = map (nulled_ref ids3 \<circ> credential_id) (usage_logs db)
      \<and> credentials db3 = filter (\<lambda>c. cred_id c \<notin> set ids3) (credentials db)
      \<and> n3 = length ids3)
   \<and> (\<forall>l \<in> set (usage_logs (null_usage_refs ids db)).
         \<forall>i \<in> set ids. credential_id l \<noteq> Some i)
   \<and> usage_logs (db_delete cred0 db) = usage_logs db"
proof -
  have single: "delete_my_antigravity_credential cid uid db = Inr db1 \<longrightarrow>
      map log_id (usage_logs db1) = map log_id (usage_logs db)
      \<and> map credential_id (usage_logs db1)
           = map (nulled_ref [cid] \<circ> credential_id) (usage_logs db)
      \<and> credentials db1 = filter (\<lambda>c. cred_id c \<noteq> cid) (credentials db)
      \<and> (\<exists>cred. cred \<in> set (credentials db) \<and> cred_id cred = cid
            \<and> db1 = db_delete cred (null_usage_refs [cid] db))"
    using delete_my_effect [of cid uid db db1] by blast
  have mine: "delete_my_inactive_antigravity_credentials uid db = (db2, n2)
        \<and> ids2 = map cred_id
              (filter (\<lambda>c. user_id c = uid \<and> api_type c = MODE \<and> is_active c = False)
                      (credentials db)) \<longrightarrow>
      map log_id (usage_logs db2) = map log_id (usage_logs db)
      \<and> map credential_id (usage_logs db2)
           = map (nulled_ref ids2 \<circ> credential_id) (usage_logs db)
      \<and> credentials db2 = filter (\<lambda>c. cred_id c \<notin> set ids2) (credentials db)
      \<and> n2 = length ids2"
    using delete_my_inactive_effect [of uid db db2 n2 ids2] by blast
  have admin: "delete_inactive_antigravity_credentials db = (db3, n3)
        \<and> ids3 = map cred_id
              (filter (\<lambda>c. api_type c = MODE \<and> is_active c = False) (credentials db)) \<longrightarrow>
      map log_id (usage_logs db3) = map log_id (usage_logs db)
      \<and> map credential_id (usage_logs db3)
           = map (nulled_ref ids3 \<circ> credential_id) (usage_logs db)
      \<and> credentials db3 = filter (\<lambda>c. cred_id c \<notin> set ids3) (credentials db)
      \<and> n3 = length ids3"
    using delete_inactive_effect [of db db3 n3 ids3] by blast
  have unref: "\<forall>l \<in> set (usage_logs (null_usage_refs ids db)).
         \<forall>i \<in> set ids. credential_id l \<noteq> Some i"
    using null_usage_refs_unreferenced [of _ ids db] by blast
  have frame: "usage_logs (db_delete cred0 db) = usage_logs db"
    by simp
  from single mine admin unref frame show ?thesis by blast
qed

theorem C9_usage_logs_nulled_not_deleted_witness:
  "(\<exists>db1. delete_my_antigravity_credential 2 1 example_db = Inr db1
        \<and> map log_id (usage_logs db1) = [10, 11, 12, 13]
        \<and> map credential_id (usage_logs db1) = [Some 1, None, None, Some 3]
        \<and> map cred_id (credentials db1) = [1, 3])
   \<and> map log_id (usage_logs (fst (delete_my_inactive_antigravity_credentials 1 example_db)))
       = [10, 11, 12, 13]
   \<and> map credential_id
        (usage_logs (fst (delete_my_inactive_antigravity_credentials 1 example_db)))
       = [None, Some 2, None, Some 3]
   \<and> map credential_id
        (usage_logs (fst (delete_inactive_antigravity_credentials example_db)))
       = [None, Some 2, None, None]
   \<and> map cred_id (credentials (fst (delete_inactive_antigravity_credentials example_db)))
       = [2]"
proof -
  obtain db1 where r1: "delete_my_antigravity_credential 2 1 example_db = Inr db1"
    by (simp add: delete_my_antigravity_credential_def example_db_def example_cred_def
          MODE_def)
  obtain db2 n2 where r2: "delete_my_inactive_antigravity_credentials 1 example_db = (db2, n2)"
    by (cases "delete_my_inactive_antigravity_credentials 1 example_db") blast
  obtain db3 n3 where r3: "delete_inactive_antigravity_credentials example_db = (db3, n3)"
    by (cases "delete_inactive_antigravity_credentials example_db") blast
  have ids2: "map cred_id
      (filter (\<lambda>c. user_id c = 1 \<and> api_type c = MODE \<and> is_active c = False)
              (credentials example_db)) = [1]"
    by (simp add: example_db_def example_cred_def MODE_def)
  have ids3: "map cred_id
      (filter (\<lambda>c. api_type c = MODE \<and> is_active c = False) (credentials example_db))
      = [1, 3]"
    by (simp add: example_db_def example_cred_def MODE_def)
  note all = C9_usage_logs_nulled_not_deleted
         [where cid = 2 and uid = 1 and db = example_db and ?db1.0 = db1
            and ?db2.0 = db2 and ?n2.0 = n2 and ?ids2.0 = "[1]"
            and ?db3.0 = db3 and ?n3.0 = n3 and ?ids3.0 = "[1, 3]"
            and ids = "[]" and ?cred0.0 = "example_cred 1 1 [] False False"]
  note single = all [THEN conjunct1, THEN mp, OF r1]
  note mine = all [THEN conjunct2, THEN conjunct1, THEN mp, OF conjI [OF r2 ids2 [symmetric]]]
  note admin = all [THEN conjunct2, THEN conjunct2, THEN conjunct1, THEN mp,
                    OF conjI [OF r3 ids3 [symmetric]]]
  have e1: "map credential_id (usage_logs db1) = [Some 1, None, None, Some 3]"
    using single [THEN conjunct2, THEN conjunct1]
    by (simp add: example_db_def nulled_ref_def)
  have e2: "map cred_id (credentials db1) = [1, 3]"
    using single [THEN conjunct2, THEN conjunct2, THEN conjunct1]
    by (simp add: example_db_def example_cred_def)
  have e3: "map log_id (usage_logs db1) = [10, 11, 12, 13]"
    using single [THEN conjunct1] by (simp add: example_db_def)
  have e4: "map log_id (usage_logs db2) = [10, 11, 12, 13]"
    using mine [THEN conjunct1] by (simp add: example_db_def)
  have e5: "map credential_id (usage_logs db2) = [None, Some 2, None, Some 3]"
    using mine [THEN conjunct2, THEN conjunct1]
    by (simp add: example_db_def nulled_ref_def)
  have e6: "map credential_id (usage_logs db3) = [None, Some 2, None, None]"
    using admin [THEN conjunct2, THEN conjunct1]
    by (simp add: example_db_def nulled_ref_def)
  have e7: "map cred_id (credentials db3) = [2]"
    using admin [THEN conjunct2, THEN conjunct2, THEN conjunct1]
    by (simp add: example_db_def example_cred_def)
  from e1 e2 e3 e4 e5 e6 e7 r1 r2 r3 show ?thesis by simp
qed

subsection \<open>Project-id resolution\<close>

lemma onboard_poll_prefix:
  "onboard_poll onboard t a n = (r, evs) \<Longrightarrow>
   prefix evs (concat (replicate n [OnboardUser t, Sleep 2]))"
proof (induction n arbitrary: a r evs)
  case 0
  then show ?case by simp
next
  case (Suc n)
  obtain r' evs' where rest: "onboard_poll onboard t (Suc a) n = (r', evs')"
    by (cases "onboard_poll onboard t (Suc a) n") blast
  then have "prefix evs' (concat (replicate n [OnboardUser t, Sleep 2]))"
    by (rule Suc.IH)
  then show ?case
    using Suc.prems rest
    by (auto split: outcome.splits option.splits prod.splits if_splits)
qed

lemma onboard_poll_no_discovery:
  "onboard_poll onboard t a n = (r, evs) \<Longrightarrow> LoadCodeAssist \<notin> set evs"
proof (induction n arbitrary: a r evs)
  case 0
  then show ?case by simp
next
  case (Suc n)
  obtain r' evs' where rest: "onboard_poll onboard t (Suc a) n = (r', evs')"
    by (cases "onboard_poll onboard t (Suc a) n") blast
  then have "LoadCodeAssist \<notin> set evs'"
    by (rule Suc.IH)
  then show ?case
    using Suc.prems rest
    by (auto split: outcome.splits option.splits prod.splits if_splits)
qed

lemma onboard_poll_calls:
  "onboard_poll onboard t a n = (r, evs) \<Longrightarrow> length (filter is_onboard_call evs) \<le> n"
proof (induction n arbitrary: a r evs)
  case 0
  then show ?case by simp
next
  case (Suc n)
  obtain r' evs' where rest: "onboard_poll onboard t (Suc a) n = (r', evs')"
    by (cases "onboard_poll onboard t (Suc a) n") blast
  then have "length (filter is_onboard_call evs') \<le> n"
    by (rule Suc.IH)
  then show ?case
    using Suc.prems rest
    by (auto split: outcome.splits option.splits prod.splits if_splits)
qed

lemma fetch_calls_bounded:
  "length (filter is_onboard_call (snd (fetch_antigravity_project_id discovery onboard))) \<le> 5"
proof -
  obtain r evs where poll: "onboard_poll onboard (get_onboard_tier (discovery 1)) 0 5 = (r, evs)"
    by (cases "onboard_poll onboard (get_onboard_tier (discovery 1)) 0 5") blast
  from onboard_poll_calls [OF poll] show ?thesis
    using poll by (simp add: fetch_antigravity_project_id_def Let_def)
qed

lemma fetch_pauses:
  "prefix (filter (\<lambda>e. e \<noteq> LoadCodeAssist)
             (snd (fetch_antigravity_project_id discovery onboard)))
          (full_polling (get_onboard_tier (discovery 1)))"
proof -
  let ?t = "get_onboard_tier (discovery 1)"
  obtain r evs where poll: "onboard_poll onboard ?t 0 5 = (r, evs)"
    by (cases "onboard_poll onboard ?t 0 5") blast
  have keep: "filter (\<lambda>e. e \<noteq> LoadCodeAssist) evs = evs"
    using onboard_poll_no_discovery [OF poll]
    by (intro filter_True) auto
  show ?thesis
    using onboard_poll_prefix [OF poll] keep poll
    by (simp add: fetch_antigravity_project_id_def Let_def full_polling_def)
qed

lemma no_current_tier:
  "map_of kv ''currentTier'' = None \<Longrightarrow>
   load_code_assist_project (Returned (200, Some (JObj kv))) = JNull"
  by (simp add: load_code_assist_project_def)

lemma five_Suc: "(5::nat) = Suc (Suc (Suc (Suc (Suc 0))))"
  by simp

lemma poll_scenario:
  assumes "onboard 0 = Returned (200, Some (JObj [(''done'', JBool False)]))"
    and "onboard 1 = Returned (200, Some (JObj [(''done'', JBool True),
           (''response'', JObj [(''cloudaicompanionProject'', JObj [(''id'', JStr ''proj-9'')])])]))"
  shows "onboard_poll onboard t 0 5 = (JStr ''proj-9'', [OnboardUser t, Sleep 2, OnboardUser t])"
  unfolding five_Suc using assms by (simp add: completion_project_def)

lemma poll_accepts_form:
  assumes "s \<noteq> []"
    and "project = JStr s \<or> project = JObj [(''id'', JStr s)]"
    and "onboard 0 = Returned (200, Some (JObj [(''done'', JBool True),
           (''response'', JObj [(''cloudaicompanionProject'', project)])]))"
  shows "onboard_poll onboard t 0 5 = (JStr s, [OnboardUser t])"
proof -
  from assms(2) have "completion_project (JObj [(''done'', JBool True),
           (''response'', JObj [(''cloudaicompanionProject'', project)])]) = Some (JStr s)"
    by (auto simp: completion_project_def)
  then show ?thesis
    unfolding five_Suc using assms(1,3) by simp
qed

text \<open>
  Claim C4.  With a primary discovery reply that has no \<open>currentTier\<close>, a tier lookup
  that yields a tier id, and a provisioning endpoint that replies \<open>{"done": false}\<close>
  and then the completion with project \<open>{"id": "proj-9"}\<close>, the resolution returns
  \<open>"proj-9"\<close> after exactly two provisioning calls, with one 2-second pause between
  them.  For every behaviour of the two endpoints there are at most five provisioning
  calls, and the calls and pauses form an initial part of: call, 2-second pause, call,
  2-second pause, ... (five times).  A completion is accepted both when the project
  is a bare string and when it is an object with an \<open>id\<close>.
\<close>

theorem C4_project_id_resolution:
  "(discovery 0 = Returned (200, Some (JObj kv))
      \<and> map_of kv ''currentTier'' = None
      \<and> truthy (get_onboard_tier (discovery 1))
      \<and> onboard 0 = Returned (200, Some (JObj [(''done'', JBool False)]))
      \<and> onboard 1 = Returned (200, Some (JObj [(''done'', JBool True),
           (''response'',
            JObj [(''cloudaicompanionProject'', JObj [(''id'', JStr ''proj-9'')])])]))
    \<longrightarrow> fst (fetch_antigravity_project_id discovery onboard) = JStr ''proj-9''
        \<and> snd (fetch_antigravity_project_id discovery onboard)
            = [LoadCodeAssist, LoadCodeAssist,
               OnboardUser (get_onboard_tier (discovery 1)), Sleep 2,
               OnboardUser (get_onboard_tier (discovery 1))]
        \<and> length (filter is_onboard_call
                    (snd (fetch_antigravity_project_id discovery onboard))) = 2)
   \<and> length (filter is_onboard_call (snd (fetch_antigravity_project_id disc onb))) \<le> 5
   \<and> prefix (filter (\<lambda>e. e \<noteq> LoadCodeAssist) (snd (fetch_antigravity_project_id disc onb)))
            (full_polling (get_onboard_tier (disc 1)))
   \<and> (s \<noteq> [] \<and> (project = JStr s \<or> project = JObj [(''id'', JStr s)])
      \<and> \<not> truthy (load_code_assist_project (disc 0))
      \<and> truthy (get_onboard_tier (disc 1))
      \<and> onb 0 = Returned (200, Some (JObj [(''done'', JBool True),
           (''response'', JObj [(''cloudaicompanionProject'', project)])]))
    \<longrightarrow> fst (fetch_antigravity_project_id disc onb) = JStr s)"
proof -
  have scenario: "discovery 0 = Returned (200, Some (JObj kv))
      \<and> map_of kv ''currentTier'' = None
      \<and> truthy (get_onboard_tier (discovery 1))
      \<and> onboard 0 = Returned (200, Some (JObj [(''done'', JBool False)]))
      \<and> onboard 1 = Returned (200, Some (JObj [(''done'', JBool True),
           (''response'',
            JObj [(''cloudaicompanionProject'', JObj [(''id'', JStr ''proj-9'')])])]))
    \<longrightarrow> fst (fetch_antigravity_project_id discovery onboard) = JStr ''proj-9''
        \<and> snd (fetch_antigravity_project_id discovery onboard)
            = [LoadCodeAssist, LoadCodeAssist,
               OnboardUser (get_onboard_tier (discovery 1)), Sleep 2,
               OnboardUser (get_onboard_tier (discovery 1))]
        \<and> length (filter is_onboard_call
                    (snd (fetch_antigravity_project_id discovery onboard))) = 2"
  proof
    assume h: "discovery 0 = Returned (200, Some (JObj kv))
      \<and> map_of kv ''currentTier'' = None
      \<and> truthy (get_onboard_tier (discovery 1))
      \<and> onboard 0 = Returned (200, Some (JObj [(''done'', JBool False)]))
      \<and> onboard 1 = Returned (200, Some (JObj [(''done'', JBool True),
           (''response'',
            JObj [(''cloudaicompanionProject'', JObj [(''id'', JStr ''proj-9'')])])]))"
    let ?t = "get_onboard_tier (discovery 1)"
    from h have primary: "load_code_assist_project (discovery 0) = JNull"
      by (simp add: no_current_tier)
    from h have poll: "onboard_poll onboard ?t 0 5
        = (JStr ''proj-9'', [OnboardUser ?t, Sleep 2, OnboardUser ?t])"
      by (intro poll_scenario) simp_all
    from h have tier: "truthy ?t" by simp
    have "fetch_antigravity_project_id discovery onboard
        = (JStr ''proj-9'', [LoadCodeAssist, LoadCodeAssist,
             OnboardUser ?t, Sleep 2, OnboardUser ?t])"
      using primary poll tier by (simp add: fetch_antigravity_project_id_def Let_def)
    then show "fst (fetch_antigravity_project_id discovery onboard) = JStr ''proj-9''
        \<and> snd (fetch_antigravity_project_id discovery onboard)
            = [LoadCodeAssist, LoadCodeAssist, OnboardUser ?t, Sleep 2, OnboardUser ?t]
        \<and> length (filter is_onboard_call
                    (snd (fetch_antigravity_project_id discovery onboard))) = 2"
      by simp
  qed
  have bound: "length (filter is_onboard_call (snd (fetch_antigravity_project_id disc onb))) \<le> 5"
    by (rule fetch_calls_bounded)
  have pauses: "prefix (filter (\<lambda>e. e \<noteq> LoadCodeAssist)
                  (snd (fetch_antigravity_project_id disc onb)))
            (full_polling (get_onboard_tier (disc 1)))"
    by (rule fetch_pauses)
  have forms: "s \<noteq> [] \<and> (project = JStr s \<or> project = JObj [(''id'', JStr s)])
      \<and> \<not> truthy (load_code_assist_project (disc 0))
      \<and> truthy (get_onboard_tier (disc 1))
      \<and> onb 0 = Returned (200, Some (JObj [(''done'', JBool True),
           (''response'', JObj [(''cloudaicompanionProject'', project)])]))
    \<longrightarrow> fst (fetch_antigravity_project_id disc onb) = JStr s"
  proof
    assume h: "s \<noteq> [] \<and> (project = JStr s \<or> project = JObj [(''id'', JStr s)])
      \<and> \<not> truthy (load_code_assist_project (disc 0))
      \<and> truthy (get_onboard_tier (disc 1))
      \<and> onb 0 = Returned (200, Some (JObj [(''done'', JBool True),
           (''response'', JObj [(''cloudaicompanionProject'', project)])]))"
    then have "onboard_poll onb (get_onboard_tier (disc 1)) 0 5
        = (JStr s, [OnboardUser (get_onboard_tier (disc 1))])"
      by (intro poll_accepts_form [of s project]) simp_all
    with h show "fst (fetch_antigravity_project_id disc onb) = JStr s"
      by (simp add: fetch_antigravity_project_id_def Let_def)
  qed
  from scenario bound pauses forms show ?thesis by blast
qed

theorem C4_project_id_resolution_witness:
  "fetch_antigravity_project_id ex_discovery ex_onboard
     = (JStr ''proj-9'',
        [LoadCodeAssist, LoadCodeAssist, OnboardUser (JStr ''free-tier''), Sleep 2,
         OnboardUser (JStr ''free-tier'')])
   \<and> fst (fetch_antigravity_project_id ex_discovery ex_onboard_bare) = JStr ''proj-7''"
proof -
  have tier: "get_onboard_tier (ex_discovery 1) = JStr ''free-tier''"
    by (simp add: ex_discovery_def get_onboard_tier_def)
  have primary: "load_code_assist_project (ex_discovery 0) = JNull"
    by (simp add: ex_discovery_def load_code_assist_project_def)
  note all = C4_project_id_resolution
      [where discovery = ex_discovery and onboard = ex_onboard
         and kv = "[(''allowedTiers'',
              JArr [JObj [(''id'', JStr ''free-tier''), (''isDefault'', JBool True)]])]"
         and disc = ex_discovery and onb = ex_onboard_bare and s = "''proj-7''"
         and project = "JStr ''proj-7''"]
  have first: "fst (fetch_antigravity_project_id ex_discovery ex_onboard) = JStr ''proj-9''
     \<and> snd (fetch_antigravity_project_id ex_discovery ex_onboard)
        = [LoadCodeAssist, LoadCodeAssist, OnboardUser (get_onboard_tier (ex_discovery 1)),
           Sleep 2, OnboardUser (get_onboard_tier (ex_discovery 1))]
     \<and> length (filter is_onboard_call
                 (snd (fetch_antigravity_project_id ex_discovery ex_onboard))) = 2"
    by (rule all [THEN conjunct1, THEN mp])
       (simp add: ex_discovery_def ex_onboard_def get_onboard_tier_def)
  have second: "fst (fetch_antigravity_project_id ex_discovery ex_onboard_bare) = JStr ''proj-7''"
    by (rule all [THEN conjunct2, THEN conjunct2, THEN conjunct2, THEN mp])
       (simp add: ex_discovery_def ex_onboard_bare_def get_onboard_tier_def
          load_code_assist_project_def)
  from first second tier show ?thesis
    by (simp add: prod_eq_iff)
qed

subsection \<open>Upload\<close>

lemma upload_credential_fields [simp]:
  "email (upload_credential enc i uid d mail rt pid pub valid) = Some mail"
  "api_type (upload_credential enc i uid d mail rt pid pub valid) = MODE"
  "is_public (upload_credential enc i uid d mail rt pid pub valid) = pub"
  "is_active (upload_credential enc i uid d mail rt pid pub valid) = valid"
  "last_error (upload_credential enc i uid d mail rt pid pub valid) = None"
  by (simp_all add: upload_credential_def)

lemma unreadable_archive:
  "collect_json_files [ZipUnreadable z members] ([], [])
     = (filter (\<lambda>m. suffix ''.json'' (fst m) \<and> \<not> prefix ''__MACOSX'' (fst m)) members,
        [(z, Error)])"
  by simp

lemma step_valid:
  assumes "map_of d ''refresh_token'' = Some rt"
    and "filter (\<lambda>c. email c = Some (upload_email d n) \<and> api_type c = MODE) db = []"
    and "filter (\<lambda>c. refresh_token c = Some (enc rt) \<and> api_type c = MODE) db = []"
    and "upload_verify d net = (True, pid)"
  shows "upload_entry_step enc uid public (n, Doc d, net) (db, results, k)
           = (db @ [upload_credential enc (fresh_id db) uid d (upload_email d n) rt pid
                      public True],
              results @ [(n, Success)], k + 1)"
  using assms by (simp add: upload_entry_step.simps Let_def)

lemma step_missing:
  assumes "map_of d ''refresh_token'' = None"
  shows "upload_entry_step enc uid public (n, Doc d, net) (db, results, k)
           = (db, results @ [(n, Error)], k)"
  using assms by (simp add: upload_entry_step.simps)

lemma step_duplicate:
  assumes "map_of d ''refresh_token'' = Some rt"
    and "filter (\<lambda>c. email c = Some (upload_email d n) \<and> api_type c = MODE) db = [stored]"
  shows "upload_entry_step enc uid public (n, Doc d, net) (db, results, k)
           = (db, results @ [(n, Skip)], k)"
  using assms by (simp add: upload_entry_step.simps Let_def)

lemma three_entries:
  assumes first: "map_of d1 ''refresh_token'' = Some rt1"
    and fresh_mail: "filter (\<lambda>c. email c = Some (upload_email d1 n1) \<and> api_type c = MODE) db = []"
    and fresh_token: "filter (\<lambda>c. refresh_token c = Some (enc rt1) \<and> api_type c = MODE) db = []"
    and verified: "fst (upload_verify d1 net1)"
    and second: "map_of d2 ''refresh_token'' = None"
    and third: "map_of d3 ''refresh_token'' = Some rt3"
    and stored: "filter (\<lambda>c. email c = Some (upload_email d3 n3) \<and> api_type c = MODE) db
                   = [old]"
  shows "\<exists>db'. upload_entries enc uid public
                   [(n1, Doc d1, net1), (n2, Doc d2, net2), (n3, Doc d3, net3)]
                   (db, results, 0)
                 = (db', results @ [(n1, Success), (n2, Error), (n3, Skip)], 1)"
proof -
  obtain pid where v: "upload_verify d1 net1 = (True, pid)"
    using verified by (cases "upload_verify d1 net1") auto
  let ?c = "upload_credential enc (fresh_id db) uid d1 (upload_email d1 n1) rt1 pid public True"
  have differ: "upload_email d1 n1 \<noteq> upload_email d3 n3"
    using fresh_mail stored by auto
  have dup: "filter (\<lambda>c. email c = Some (upload_email d3 n3) \<and> api_type c = MODE) (db @ [?c])
               = [old]"
    using stored differ by simp
  have s1: "upload_entry_step enc uid public (n1, Doc d1, net1) (db, results, 0)
              = (db @ [?c], results @ [(n1, Success)], 1)"
    using step_valid [where enc = enc and d = d1 and rt = rt1 and n = n1 and db = db
        and net = net1 and pid = pid and uid = uid and public = public
        and results = results and k = 0]
      first fresh_mail fresh_token v
    by simp
  have s2: "upload_entry_step enc uid public (n2, Doc d2, net2)
                (db @ [?c], results @ [(n1, Success)], 1)
              = (db @ [?c], results @ [(n1, Success), (n2, Error)], 1)"
    using step_missing [where d = d2, OF second] by simp
  have s3: "upload_entry_step enc uid public (n3, Doc d3, net3)
                (db @ [?c], results @ [(n1, Success), (n2, Error)], 1)
              = (db @ [?c], results @ [(n1, Success), (n2, Error), (n3, Skip)], 1)"
    using step_duplicate [where d = d3 and rt = rt3 and n = n3 and stored = old
        and db = "db @ [?c]", OF third dup]
    by simp
  show ?thesis
    by (simp only: upload_entries.simps s1 s2 s3) simp
qed

text \<open>
  Claim C3.  Three JSON entries in this order: one with a \<open>refresh_token\<close> whose e-mail
  and token are not stored yet and whose verification succeeds, one without the
  \<open>refresh_token\<close> field, and one whose e-mail is that of a stored Antigravity
  credential.  Uploaded as three \<open>.json\<close> files, the result statuses are
  \<open>[success, error, skip]\<close> and \<open>uploaded_count\<close> is 1.  Uploaded as the members of
  one ZIP archive, the same three per-entry statuses follow the archive's own
  \<open>info\<close> record, and \<open>uploaded_count\<close> is 1.
\<close>

theorem C3_upload_scenario:
  assumes "map_of d1 ''refresh_token'' = Some rt1"
    and "filter (\<lambda>c. email c = Some (upload_email d1 n1) \<and> api_type c = MODE) db = []"
    and "filter (\<lambda>c. refresh_token c = Some (enc rt1) \<and> api_type c = MODE) db = []"
    and "fst (upload_verify d1 net1)"
    and "map_of d2 ''refresh_token'' = None"
    and "map_of d3 ''refresh_token'' = Some rt3"
    and "filter (\<lambda>c. email c = Some (upload_email d3 n3) \<and> api_type c = MODE) db = [old]"
  shows "(\<exists>db'. upload_antigravity_credentials st enc uid public
                   [JsonUpload n1 (Doc d1) net1, JsonUpload n2 (Doc d2) net2,
                    JsonUpload n3 (Doc d3) net3] db
                 = Inr (db', 1, 3, [(n1, Success), (n2, Error), (n3, Skip)]))
       \<and> (suffix ''.json'' n1 \<and> suffix ''.json'' n2 \<and> suffix ''.json'' n3
           \<and> \<not> prefix ''__MACOSX'' n1 \<and> \<not> prefix ''__MACOSX'' n2
           \<and> \<not> prefix ''__MACOSX'' n3 \<longrightarrow>
          (\<exists>db'. upload_antigravity_credentials st enc uid public
                   [ZipUpload z (Some [(n1, Doc d1, net1), (n2, Doc d2, net2),
                                       (n3, Doc d3, net3)])] db
                 = Inr (db', 1, 3, [(z, Info), (n1, Success), (n2, Error), (n3, Skip)])))"
proof -
  let ?public = "if force_donate st then True else public"
  let ?entries = "[(n1, Doc d1, net1), (n2, Doc d2, net2), (n3, Doc d3, net3)]"
  obtain db1 where plain: "upload_entries enc uid ?public ?entries (db, [], 0)
      = (db1, [] @ [(n1, Success), (n2, Error), (n3, Skip)], 1)"
    using three_entries [where enc = enc and ?d1.0 = d1 and ?rt1.0 = rt1 and ?n1.0 = n1
        and db = db and ?net1.0 = net1 and ?d2.0 = d2 and ?d3.0 = d3 and ?rt3.0 = rt3
        and ?n3.0 = n3 and old = old and uid = uid and public = ?public and ?n2.0 = n2
        and ?net2.0 = net2 and ?net3.0 = net3 and results = "[]"]
      assms
    by blast
  obtain db2 where zipped: "upload_entries enc uid ?public ?entries (db, [(z, Info)], 0)
      = (db2, [(z, Info)] @ [(n1, Success), (n2, Error), (n3, Skip)], 1)"
    using three_entries [where enc = enc and ?d1.0 = d1 and ?rt1.0 = rt1 and ?n1.0 = n1
        and db = db and ?net1.0 = net1 and ?d2.0 = d2 and ?d3.0 = d3 and ?rt3.0 = rt3
        and ?n3.0 = n3 and old = old and uid = uid and public = ?public and ?n2.0 = n2
        and ?net2.0 = net2 and ?net3.0 = net3 and results = "[(z, Info)]"]
      assms
    by blast
  have a: "upload_antigravity_credentials st enc uid public
             [JsonUpload n1 (Doc d1) net1, JsonUpload n2 (Doc d2) net2,
              JsonUpload n3 (Doc d3) net3] db
           = Inr (db1, 1, 3, [(n1, Success), (n2, Error), (n3, Skip)])"
    using plain by (simp add: upload_antigravity_credentials_def Let_def)
  have b: "suffix ''.json'' n1 \<and> suffix ''.json'' n2 \<and> suffix ''.json'' n3
           \<and> \<not> prefix ''__MACOSX'' n1 \<and> \<not> prefix ''__MACOSX'' n2
           \<and> \<not> prefix ''__MACOSX'' n3 \<longrightarrow>
         upload_antigravity_credentials st enc uid public
             [ZipUpload z (Some ?entries)] db
           = Inr (db2, 1, 3, [(z, Info), (n1, Success), (n2, Error), (n3, Skip)])"
    using zipped by (simp add: upload_antigravity_credentials_def Let_def)
  from a b show ?thesis by blast
qed

theorem C3_upload_scenario_witness:
  "\<exists>db'. upload_antigravity_credentials example_settings ex_enc 1 False
            [JsonUpload ''new.json'' (Doc ex_doc_new) ex_upstream_ok,
             JsonUpload ''bad.json'' (Doc ex_doc_missing) ex_upstream_ok,
             JsonUpload ''dup.json'' (Doc ex_doc_dup) ex_upstream_ok]
            (credentials example_db)
          = Inr (db', 1, 3, [(''new.json'', Success), (''bad.json'', Error),
                             (''dup.json'', Skip)])"
proof -
  have h1: "map_of ex_doc_new ''refresh_token'' = Some ''rt-new''"
    by (simp add: ex_doc_new_def)
  have h2: "filter (\<lambda>c. email c = Some (upload_email ex_doc_new ''new.json'')
                          \<and> api_type c = MODE) (credentials example_db) = []"
    by (simp add: ex_doc_new_def upload_email_def example_db_def example_cred_def)
  have h3: "filter (\<lambda>c. refresh_token c = Some (ex_enc ''rt-new'') \<and> api_type c = MODE)
              (credentials example_db) = []"
    by (simp add: ex_enc_def example_db_def example_cred_def)
  have h4: "fst (upload_verify ex_doc_new ex_upstream_ok)"
    by (simp add: upload_verify_def upload_probe_def ex_doc_new_def ex_upstream_ok_def)
  have h5: "map_of ex_doc_missing ''refresh_token'' = None"
    by (simp add: ex_doc_missing_def)
  have h6: "map_of ex_doc_dup ''refresh_token'' = Some ''rt-other''"
    by (simp add: ex_doc_dup_def)
  have h7: "filter (\<lambda>c. email c = Some (upload_email ex_doc_dup ''dup.json'')
                          \<and> api_type c = MODE) (credentials example_db)
              = [example_cred 2 1 ''b@example.com'' True True]"
    by (simp add: ex_doc_dup_def upload_email_def example_db_def example_cred_def MODE_def)
  from C3_upload_scenario
         [where ?d1.0 = ex_doc_new and ?rt1.0 = "''rt-new''" and ?n1.0 = "''new.json''"
            and db = "credentials example_db" and enc = ex_enc
            and ?net1.0 = ex_upstream_ok and ?d2.0 = ex_doc_missing
            and ?d3.0 = ex_doc_dup and ?rt3.0 = "''rt-other''" and ?n3.0 = "''dup.json''"
            and old = "example_cred 2 1 ''b@example.com'' True True"
            and st = example_settings and uid = 1 and public = False
            and ?n2.0 = "''bad.json''" and ?net2.0 = ex_upstream_ok
            and ?net3.0 = ex_upstream_ok and z = "''bundle.zip''",
          THEN conjunct1]
       h1 h2 h3 h4 h5 h6 h7
  show ?thesis by blast
qed

subsection \<open>Visibility and failure bookkeeping\<close>

lemma upload_step_public_ok:
  assumes "upload_entry_step enc uid public entry (db, results, k) = (db', results', k')"
    and "c \<in> set db'" and "c \<notin> set db"
  shows "public_ok c"
proof -
  obtain fname content net where entry: "entry = (fname, content, net)"
    by (cases entry) auto
  show ?thesis
    using assms unfolding entry
    by (auto simp: upload_entry_step.simps Let_def public_ok_def has_auth_error_def
             split: json_file.splits option.splits sum.splits prod.splits if_splits)
qed

lemma db_update_row:
  "c \<in> set (db_update cred db) \<Longrightarrow> cred_id c = cred_id cred \<Longrightarrow> c = cred"
  by (auto simp: db_update_def split: if_splits)

lemma patch_public_only_ok:
  assumes "update_my_antigravity_credential cid (Some True) None uid db = Inr (db', p, a)"
    and "c \<in> set db'" and "cred_id c = cid"
  shows "public_ok c"
proof -
  let ?P = "\<lambda>c. cred_id c = cid \<and> user_id c = uid \<and> api_type c = MODE"
  from assms(1) obtain cred where
    found: "scalar_one_or_none (filter ?P db) = Inr (Some cred)"
    and active: "is_active cred" and clean: "\<not> has_auth_error (last_error cred)"
    and db': "db' = db_update (cred\<lparr>is_public := True\<rparr>) db"
    by (auto simp: update_my_antigravity_credential_def Let_def
             split: sum.splits option.splits if_splits)
  from found have "filter ?P db = [cred]" by (rule scalar_one_or_none_Some)
  then have "cred \<in> set (filter ?P db)" by simp
  then have "cred_id cred = cid" by simp
  with assms(2,3) db' have "c = cred\<lparr>is_public := True\<rparr>"
    by (auto dest: db_update_row)
  with active clean show ?thesis by (simp add: public_ok_def)
qed

lemma verify_my_records_failure:
  assumes found: "scalar_one_or_none
        (filter (\<lambda>c. cred_id c = cid \<and> user_id c = uid \<and> api_type c = MODE) db)
        = Inr (Some cred)"
    and no_raise: "project_reply net = Returned new_pid"
    and run: "verify_my_antigravity_credential cid uid net db = (db', False, p, err)"
    and row: "c \<in> set db'" "cred_id c = cid"
  shows "\<not> is_active c \<and> last_error c \<noteq> None \<and> last_error c = err"
proof -
  let ?P = "\<lambda>c. cred_id c = cid \<and> user_id c = uid \<and> api_type c = MODE"
  from found have "filter ?P db = [cred]" by (rule scalar_one_or_none_Some)
  then have "cred \<in> set (filter ?P db)" by simp
  then have cid: "cred_id cred = cid" by simp
  have probe_msg: "\<And>r m. classify_probe r = (False, m) \<Longrightarrow> m \<noteq> None \<and> or_none m = m"
    by (auto simp: classify_probe_def msg_auth_failed_def msg_api_returned_def
          msg_request_exception_def asc_def split: outcome.splits if_splits)
  have fixed_msgs: "msg_no_access_token \<noteq> []" "msg_no_project_id \<noteq> []"
    "\<And>e. msg_token_exception @ take 50 e \<noteq> []"
    by (simp_all add: msg_no_access_token_def msg_no_project_id_def msg_token_exception_def)
  show ?thesis
  proof (cases "token_reply net")
    case (Raised e)
    with run found have "db' = db_update (cred\<lparr>is_active := False,
        last_error := Some (msg_token_exception @ take 50 e)\<rparr>) db"
      and "err = Some (msg_token_exception @ take 50 e)"
      by (auto simp: verify_my_antigravity_credential_def)
    with row cid show ?thesis
      by (auto dest!: db_update_row)
  next
    case (Returned tok)
    show ?thesis
    proof (cases "truthy_str tok")
      case False
      with run found Returned have "db' = db_update (cred\<lparr>is_active := False,
          last_error := Some msg_no_access_token\<rparr>) db"
        and "err = Some msg_no_access_token"
        by (auto simp: verify_my_antigravity_credential_def)
      with row cid show ?thesis
        by (auto dest!: db_update_row)
    next
      case True
      obtain v m where verdict:
        "(if truthy_str (project_id (if truthy_str new_pid then cred\<lparr>project_id := new_pid\<rparr>
                                     else cred))
          then classify_probe (probe_reply net) else (False, Some msg_no_project_id)) = (v, m)"
        by (cases "(if truthy_str (project_id (if truthy_str new_pid
                                                then cred\<lparr>project_id := new_pid\<rparr> else cred))
                    then classify_probe (probe_reply net)
                    else (False, Some msg_no_project_id))") blast
      let ?cred1 = "if truthy_str new_pid then cred\<lparr>project_id := new_pid\<rparr> else cred"
      have unfolded: "verify_my_antigravity_credential cid uid net db
          = (db_update (?cred1\<lparr>is_active := v, last_error := or_none m\<rparr>) db,
             v, project_id ?cred1, m)"
        unfolding verify_my_antigravity_credential_def Let_def
        by (simp only: found Returned True no_raise verdict sum.case option.case
              outcome.case prod.case not_True_eq_False if_False)
      with run have db': "db' = db_update (?cred1\<lparr>is_active := v, last_error := or_none m\<rparr>) db"
        and v: "v = False" and e: "err = m"
        by auto
      have msg: "m \<noteq> None \<and> or_none m = m"
      proof (cases "truthy_str (project_id ?cred1)")
        case True
        with verdict v have "classify_probe (probe_reply net) = (False, m)" by simp
        then show ?thesis by (rule probe_msg)
      next
        case False
        with verdict have "m = Some msg_no_project_id" by simp
        then show ?thesis using fixed_msgs by simp
      qed
      have id1: "cred_id ?cred1 = cid" using cid by simp
      from row db' id1 have "c = ?cred1\<lparr>is_active := v, last_error := or_none m\<rparr>"
        by (auto dest!: db_update_row)
      with msg e v show ?thesis by simp
    qed
  qed
qed

text \<open>
  Claim C1, evaluated.  An OAuth callback that asks for a public credential, for an
  e-mail not stored yet, whose probe is answered 401: the credential is stored public
  and inactive.  A \<open>PATCH\<close> with \<open>is_public=true\<close> and \<open>is_active=false\<close> on an
  active private credential: the credential is stored public and inactive.
\<close>

theorem C1_public_inactive_persisted:
  "antigravity_credential_from_callback_url example_settings ex_enc ex_callback_401 5 0 []
     = Inr ([\<lparr>cred_id = 1, user_id = 5, name = ''Antigravity - d@example.com'',
              email = Some ''d@example.com'', api_key = Some ''enc:ya29.new'',
              refresh_token = Some ''enc:1//refresh'', client_id = None,
              client_secret = None, project_id = Some ''proj-9'',
              credential_type = ''oauth'', is_public = True, is_active = False,
              last_error = None, api_type = ''antigravity'', model_tier = ''2.5''\<rparr>],
            0, True, False, ''2.5'', 0)
   \<and> update_my_antigravity_credential 4 (Some True) (Some False) 1
        [example_cred 4 1 ''e@example.com'' False True]
     = Inr ([(example_cred 4 1 ''e@example.com'' False True)
               \<lparr>is_public := True, is_active := False\<rparr>], True, False)
   \<and> \<not> public_ok ((example_cred 4 1 ''e@example.com'' False True)
                     \<lparr>is_public := True, is_active := False\<rparr>)"
  by (simp add: antigravity_credential_from_callback_url_def ex_callback_401_def
        callback_probe_def fresh_id_def ex_enc_def example_settings_def
        update_my_antigravity_credential_def example_cred_def MODE_def db_update_def
        has_auth_error_def public_ok_def Let_def)

text \<open>
  Claim C6, evaluated.  The verify-all batch on an active credential with no
  \<open>last_error\<close>, whose token refresh yields no access token: the credential is stored
  inactive and \<open>last_error\<close> is still empty.  The admin's single verification, when
  the token call raises: status 500 and nothing is stored.
\<close>

theorem C6_batch_leaves_last_error:
  "verify_all_antigravity_credentials ex_enc (\<lambda>i. ex_upstream_no_token)
       [example_cred 1 1 ''a@example.com'' False True]
     = [(example_cred 1 1 ''a@example.com'' False True)\<lparr>is_active := False\<rparr>]
   \<and> last_error ((example_cred 1 1 ''a@example.com'' False True)\<lparr>is_active := False\<rparr>)
     = None
   \<and> admin_verify_antigravity_credential 1 ex_upstream_token_raises
       [example_cred 1 1 ''a@example.com'' False True]
     = Inl (HTTPException 500)"
  by (simp add: verify_all_antigravity_credentials_def verify_single_def
        apply_batch_result_def ex_upstream_no_token_def ex_upstream_token_raises_def
        admin_verify_antigravity_credential_def example_cred_def MODE_def Let_def)

subsection \<open>Quota display\<close>


lemma days_before_month_1 [simp]: "days_before_month y (Suc 0) = 0"
  by (simp add: days_before_month_def)










subsection \<open>Cache-backed reads\<close>

lemma cache_delete_gone:
  "memory_cache (cache_delete redis key c) key = None"
  "memory_expires (cache_delete redis key c) key = None"
  by (simp_all add: cache_delete_def cache_pop_def)

lemma cached_wrapper_coroutine:
  assumes "cache_get redis t_get key c = (Coroutine, c1)"
  shows "cached_wrapper redis t_get t_set key ttl func_result c
           = (func_result,
              (if is_awaitable func_result then cache_delete redis key c1
               else cache_set redis t_set key func_result ttl (cache_delete redis key c1)),
              True)"
  using assms by (simp add: cached_wrapper_def Let_def)

lemma cached_wrapper_result:
  assumes "fst (cached_wrapper redis t_get t_set key ttl func_result c) = Coroutine"
  shows "func_result = Coroutine"
proof -
  obtain result c1 where g: "cache_get redis t_get key c = (result, c1)"
    by (cases "cache_get redis t_get key c") blast
  show ?thesis
  proof (cases "result \<noteq> PyNone \<and> \<not> is_awaitable result")
    case True
    with assms g have "result = Coroutine"
      by (simp add: cached_wrapper_def)
    with True show ?thesis by simp
  next
    case False
    with assms g show ?thesis
      by (simp add: cached_wrapper_def Let_def)
  qed
qed

lemma get_user_coroutine:
  assumes "cache_get redis t_get (''user::api_key:'' @ k) c = (Coroutine, c1)"
  shows "get_user_by_api_key redis fromisoformat isoformat t_get t_set k db_user c
           = (db_user,
              (case db_user of
                 None \<Rightarrow> cache_delete redis (''user::api_key:'' @ k) c1
               | Some u \<Rightarrow>
                   cache_set redis t_set (''user::api_key:'' @ k)
                     (Value (user_to_dict isoformat u)) 3600
                     (cache_delete redis (''user::api_key:'' @ k) c1)),
              True)"
  using assms
  by (simp add: get_user_by_api_key_def cached_user_lookup_def Let_def split: option.split)

lemma cache_get_unawaited:
  "cache_get unawaited_redis now key c = (Coroutine, c)"
  by (simp add: cache_get_def unawaited_redis_def)

text \<open>
  Claim C7.  When the object read from the cache is an un-awaited coroutine, the
  \<open>cached\<close> wrapper and \<open>get_user_by_api_key\<close> delete the entry (afterwards the
  key has no memory entry), run the underlying computation, and return its result:
  what the wrapper returns is a coroutine only if the wrapped function's own result is
  one, and \<open>get_user_by_api_key\<close> returns what the database gives.  With
  \<open>redis_service\<close> called as \<open>cache.py\<close> calls it, every read is of this kind.
\<close>

theorem C7_cached_coroutine_discarded:
  "(cache_get redis t_get key c = (Coroutine, c1) \<longrightarrow>
      cached_wrapper redis t_get t_set key ttl func_result c
        = (func_result,
           (if is_awaitable func_result then cache_delete redis key c1
            else cache_set redis t_set key func_result ttl (cache_delete redis key c1)),
           True)
      \<and> memory_cache (cache_delete redis key c1) key = None
      \<and> memory_expires (cache_delete redis key c1) key = None)
   \<and> (fst (cached_wrapper redis t_get t_set key ttl func_result c) = Coroutine \<longrightarrow>
        func_result = Coroutine)
   \<and> (cache_get uredis t_get (''user::api_key:'' @ k) cu = (Coroutine, cu1) \<longrightarrow>
        get_user_by_api_key uredis fromisoformat isoformat t_get t_set k db_user cu
          = (db_user,
             (case db_user of
                None \<Rightarrow> cache_delete uredis (''user::api_key:'' @ k) cu1
              | Some u \<Rightarrow>
                  cache_set uredis t_set (''user::api_key:'' @ k)
                    (Value (user_to_dict isoformat u)) 3600
                    (cache_delete uredis (''user::api_key:'' @ k) cu1)),
             True))
   \<and> cache_get unawaited_redis t_get key c = (Coroutine, c)"
proof -
  have wrapper: "cache_get redis t_get key c = (Coroutine, c1) \<longrightarrow>
      cached_wrapper redis t_get t_set key ttl func_result c
        = (func_result,
           (if is_awaitable func_result then cache_delete redis key c1
            else cache_set redis t_set key func_result ttl (cache_delete redis key c1)),
           True)
      \<and> memory_cache (cache_delete redis key c1) key = None
      \<and> memory_expires (cache_delete redis key c1) key = None"
    using cached_wrapper_coroutine [of redis t_get key c c1 t_set ttl func_result]
      cache_delete_gone [of redis key c1]
    by blast
  have never: "fst (cached_wrapper redis t_get t_set key ttl func_result c) = Coroutine \<longrightarrow>
        func_result = Coroutine"
    using cached_wrapper_result [of redis t_get t_set key ttl func_result c] by blast
  have lookup: "cache_get uredis t_get (''user::api_key:'' @ k) cu = (Coroutine, cu1) \<longrightarrow>
        get_user_by_api_key uredis fromisoformat isoformat t_get t_set k db_user cu
          = (db_user,
             (case db_user of
                None \<Rightarrow> cache_delete uredis (''user::api_key:'' @ k) cu1
              | Some u \<Rightarrow>
                  cache_set uredis t_set (''user::api_key:'' @ k)
                    (Value (user_to_dict isoformat u)) 3600
                    (cache_delete uredis (''user::api_key:'' @ k) cu1)),
             True)"
    using get_user_coroutine [of uredis t_get k cu cu1 fromisoformat isoformat t_set db_user]
    by blast
  have actual: "cache_get unawaited_redis t_get key c = (Coroutine, c)"
    by (rule cache_get_unawaited)
  from wrapper never lookup actual show ?thesis by blast
qed

theorem C7_cached_coroutine_discarded_witness:
  "cached_wrapper unawaited_redis 100 101 ''stats:get_stats:0'' 30 (Value 7) ex_cache
     = (Value 7, ex_cache, True)
   \<and> get_user_by_api_key unawaited_redis (\<lambda>s. None) (\<lambda>t. []) 100 101 ''cat-key'' None
        ex_user_cache
     = (None, ex_user_cache, True)"
proof -
  note all = C7_cached_coroutine_discarded
      [where redis = unawaited_redis and t_get = 100 and t_set = 101
         and key = "''stats:get_stats:0''" and c = ex_cache and ?c1.0 = ex_cache
         and ttl = 30 and func_result = "Value (7::nat)"
         and uredis = unawaited_redis and k = "''cat-key''" and cu = ex_user_cache
         and ?cu1.0 = ex_user_cache and fromisoformat = "\<lambda>s. None"
         and isoformat = "\<lambda>t. []" and db_user = None]
  have read: "cache_get unawaited_redis 100 ''stats:get_stats:0'' ex_cache = (Coroutine, ex_cache)"
    by (simp add: cache_get_def unawaited_redis_def)
  have read_user: "cache_get unawaited_redis 100 (''user::api_key:'' @ ''cat-key'') ex_user_cache
      = (Coroutine, ex_user_cache)"
    by (simp add: cache_get_def unawaited_redis_def)
  have same: "cache_delete unawaited_redis ''stats:get_stats:0'' ex_cache = ex_cache"
    "cache_delete unawaited_redis ''user::api_key:cat-key'' ex_user_cache = ex_user_cache"
    by (simp_all add: cache_delete_def cache_pop_def ex_cache_def ex_user_cache_def)
  have unset: "cache_set unawaited_redis 101 ''stats:get_stats:0'' (Value 7) 30 ex_cache = ex_cache"
    by (simp add: cache_set_def unawaited_redis_def)
  from all [THEN conjunct1, THEN mp, OF read, THEN conjunct1]
       all [THEN conjunct2, THEN conjunct2, THEN conjunct1, THEN mp, OF read_user]
  show ?thesis
    by (simp add: same unset)
qed

subsection \<open>Quota entries\<close>







lemma quota_entry_not_available:
  assumes "q_resetTime quota = None \<or> q_resetTime quota = Some []
      \<or> (\<exists>raw. q_resetTime quota = Some raw
             \<and> fromisoformat (if suffix ''Z'' raw then replace_Z raw else raw) = None)
      \<or> (\<exists>raw t. q_resetTime quota = Some raw
             \<and> fromisoformat (if suffix ''Z'' raw then replace_Z raw else raw) = Some t
             \<and> add_8_hours t = None)"
  shows "v_resetTime (quota_model_entry fromisoformat quota) = ''N/A''"
  using assms by (auto simp: quota_model_entry_def Let_def)















end
